theory Spec2Isabelle
  imports Main "HOL-Library.Sublist"
begin

section \<open>Python values used by the pipeline\<close>

text \<open>
  Strings are lists of 8-bit characters. Exceptions are values: a function that can raise
  returns \<open>error + 'a\<close>, with \<open>Inl\<close> carrying the exception. The three constructors are the
  exception classes the command line distinguishes; the argument is \<open>str(e)\<close>.
\<close>

datatype error = FileNotFoundError string | ValueError string | Exception string

fun str_error :: "error \<Rightarrow> string" where
  "str_error (FileNotFoundError m) = m"
| "str_error (ValueError m) = m"
| "str_error (Exception m) = m"

text \<open>\<open>sep.join(xs)\<close>.\<close>

fun join :: "string \<Rightarrow> string list \<Rightarrow> string" where
  "join sep [] = []"
| "join sep [x] = x"
| "join sep (x # y # ys) = x @ sep @ join sep (y # ys)"

text \<open>\<open>str(n)\<close> for a natural number and for an integer, in decimal.\<close>

definition digit_char :: "nat \<Rightarrow> char" where
  "digit_char d = ''0123456789'' ! d"

fun str_nat :: "nat \<Rightarrow> string" where
  "str_nat n = (if n < 10 then [digit_char n] else str_nat (n div 10) @ [digit_char (n mod 10)])"

declare str_nat.simps [simp del]

definition str_int :: "int \<Rightarrow> string" where
  "str_int i = (if i < 0 then CHR ''-'' # str_nat (nat (- i)) else str_nat (nat i))"

text \<open>Truthiness of an optional string: \<open>None\<close> and the empty string are falsy.\<close>

fun truthy :: "string option \<Rightarrow> bool" where
  "truthy None = False"
| "truthy (Some s) = (s \<noteq> [])"

text \<open>
  \<open>str.lower()\<close>, on the ASCII letters (the characters of the prohibited terms and of the
  language codes the source compares).
\<close>

definition lower_char :: "char \<Rightarrow> char" where
  "lower_char c =
     (if (65::nat) \<le> of_char c \<and> (of_char c :: nat) \<le> 90
      then char_of ((of_char c :: nat) + 32) else c)"

definition lower :: "string \<Rightarrow> string" where
  "lower s = map lower_char s"

text \<open>\<open>s.split(sep)\<close> for a one-character separator: never empty, keeps empty fields.\<close>

fun split_on :: "char \<Rightarrow> string \<Rightarrow> string list" where
  "split_on c [] = [[]]"
| "split_on c (x # xs) =
     (if x = c then [] # split_on c xs
      else (case split_on c xs of [] \<Rightarrow> [[x]] | w # ws \<Rightarrow> (x # w) # ws))"

subsection \<open>Paths\<close>

text \<open>
  A \<open>pathlib\<close> path on a POSIX system: whether it is anchored at the root, and its
  components. Parsing drops empty components and \<open>.\<close>; \<open>..\<close> is kept, as \<open>pathlib\<close>
  keeps it. Joining with an absolute path gives that path.
\<close>

datatype Path = Path (is_abs: bool) (parts: "string list")

definition path_of :: "string \<Rightarrow> Path" where
  "path_of s = Path (s \<noteq> [] \<and> hd s = CHR ''/'')
                    (filter (\<lambda>p. p \<noteq> [] \<and> p \<noteq> ''.'') (split_on CHR ''/'' s))"

definition path_join :: "Path \<Rightarrow> Path \<Rightarrow> Path" where
  "path_join a b = (if is_abs b then b else Path (is_abs a) (parts a @ parts b))"

definition path_div :: "Path \<Rightarrow> string \<Rightarrow> Path" where
  "path_div a s = path_join a (path_of s)"

definition path_name :: "Path \<Rightarrow> string" where
  "path_name p = (if parts p = [] then [] else last (parts p))"

definition str_path :: "Path \<Rightarrow> string" where
  "str_path p =
     (if is_abs p then CHR ''/'' # join ''/'' (parts p)
      else if parts p = [] then ''.'' else join ''/'' (parts p))"

text \<open>\<open>p.relative_to(other)\<close>: raises \<open>ValueError\<close> unless \<open>other\<close> is a lexical prefix.\<close>

definition relative_to :: "Path \<Rightarrow> Path \<Rightarrow> error + Path" where
  "relative_to p other =
     (if is_abs p = is_abs other \<and> prefix (parts other) (parts p)
      then Inr (Path False (drop (length (parts other)) (parts p)))
      else Inl (ValueError ([CHR 0x27] @ str_path p @ [CHR 0x27] @ '' is not in the subpath of ''
                            @ [CHR 0x27] @ str_path other @ [CHR 0x27])))"

section \<open>Data model (models.py)\<close>

record Product =
  p_id :: string
  p_name :: string
  p_description :: string
  p_hero_image :: "string option"

record TargetMarket =
  region :: string
  language :: string

record BrandElements =
  logo :: "string option"
  primary_color :: string
  font :: string

record CampaignBrief =
  campaign_id :: string
  products :: "Product list"
  target_market :: TargetMarket
  target_audience :: string
  campaign_message :: string
  brand_elements :: "BrandElements option"

record AspectRatio =
  r_name :: string
  ratio :: "int list"
  width :: int
  height :: int

record GeneratedAsset =
  product_id :: string
  product_name :: string
  aspect_ratio :: string
  file_path :: string
  source :: string
  prompt_used :: "string option"

section \<open>Prompt construction (image_generator.py)\<close>

definition framing_line :: "string \<Rightarrow> string" where
  "framing_line pname = ''Professional product photography of '' @ pname @ ''.''"

definition details_line :: "string \<Rightarrow> string" where
  "details_line pdesc = ''Product details: '' @ pdesc @ ''.''"

definition style_line :: "string \<Rightarrow> string" where
  "style_line audience = ''Style: Clean, modern, appealing to '' @ audience @ ''.''"

definition accent_line :: "string \<Rightarrow> string" where
  "accent_line color = ''Incorporate '' @ color @ '' color accent.''"

text \<open>The list \<open>prompt_parts\<close> at the end of \<open>build_prompt\<close>, before it is joined.\<close>

definition prompt_parts :: "string \<Rightarrow> string \<Rightarrow> string \<Rightarrow> string option \<Rightarrow> string list" where
  "prompt_parts pname pdesc audience color =
     [framing_line pname,
      details_line pdesc,
      style_line audience,
      ''High quality, well-lit, studio setting.'']
     @ (if truthy color then [accent_line (the color)] else [])
     @ [''Commercial photography, 4K quality.'']"

definition build_prompt :: "string \<Rightarrow> string \<Rightarrow> string \<Rightarrow> string option \<Rightarrow> string" where
  "build_prompt pname pdesc audience color =
     join '' '' (prompt_parts pname pdesc audience color)"

section \<open>Localizer (localizer.py)\<close>

text \<open>
  The translation backend is a parameter: source language, target language and text give
  the translated text or an exception.
\<close>

type_synonym translator = "string \<Rightarrow> string \<Rightarrow> string \<Rightarrow> error + string"

definition translate_text :: "translator \<Rightarrow> string \<Rightarrow> string \<Rightarrow> string \<Rightarrow> string" where
  "translate_text backend text target_language source_language =
     (if target_language = source_language then text
      else (case backend source_language target_language text of
              Inr result \<Rightarrow> result
            | Inl e \<Rightarrow> text))"

definition font_map :: "string \<Rightarrow> string option" where
  "font_map = [''en'' \<mapsto> ''Arial'', ''es'' \<mapsto> ''Arial'', ''ja'' \<mapsto> ''Noto Sans JP'']"

definition get_font_for_language :: "string \<Rightarrow> string" where
  "get_font_for_language lang = (case font_map (lower lang) of Some f \<Rightarrow> f | None \<Rightarrow> ''Arial'')"

section \<open>Brief validation (brief_parser.py)\<close>

definition validate_brief :: "CampaignBrief \<Rightarrow> bool \<times> string list" where
  "validate_brief brief =
     (let warnings0 = [];
          warnings1 =
            (if length (products brief) < 2
             then warnings0 @ [''Brief requires at least 2 products, found ''
                                 @ str_nat (length (products brief))]
             else warnings0);
          missing_images = map p_name (filter (\<lambda>p. \<not> truthy (p_hero_image p)) (products brief));
          warnings2 =
            (if missing_images \<noteq> []
             then warnings1 @ [''Products without hero images (will generate): ''
                                 @ join '', '' missing_images]
             else warnings1);
          warnings3 =
            (if brand_elements brief = None
             then warnings2 @ [''No brand elements specified'']
             else warnings2);
          is_valid = (2 \<le> length (products brief))
      in (is_valid, warnings3))"

section \<open>Asset resolution (asset_manager.py)\<close>

text \<open>
  The directory state is the predicate \<open>exists\<close> on paths. \<open>find_asset\<close> reads it and
  changes nothing.
\<close>

definition assets_dir :: "Path \<Rightarrow> Path" where
  "assets_dir campaign_root = path_div campaign_root ''assets''"

definition output_dir :: "Path \<Rightarrow> Path" where
  "output_dir campaign_root = path_div campaign_root ''output''"

definition find_asset :: "Path \<Rightarrow> (Path \<Rightarrow> bool) \<Rightarrow> string option \<Rightarrow> Path option" where
  "find_asset campaign_root exists asset_path =
     (case asset_path of
        None \<Rightarrow> None
      | Some reference \<Rightarrow>
          if reference = [] then None
          else
            let full_path = path_div campaign_root reference in
            if exists full_path then Some full_path
            else
              let asset_name = path_name (path_of reference);
                  assets_path = path_div (assets_dir campaign_root) asset_name
              in if exists assets_path then Some assets_path else None)"

section \<open>Content moderation (content_moderator.py)\<close>

record ModerationResult =
  flagged :: bool
  categories :: "(string \<times> string) list"
  prohibited_terms :: "string list"

definition is_safe :: "ModerationResult \<Rightarrow> bool" where
  "is_safe r = (\<not> flagged r \<and> length (prohibited_terms r) = 0)"

definition load_default_terms :: "string list" where
  "load_default_terms = [''guaranteed'', ''miracle'', ''cure'']"

text \<open>The constructor: \<open>prohibited_terms or self._load_default_terms()\<close>.\<close>

definition moderator_terms :: "string list option \<Rightarrow> string list" where
  "moderator_terms supplied =
     (case supplied of None \<Rightarrow> load_default_terms
      | Some ts \<Rightarrow> if ts = [] then load_default_terms else ts)"

definition check_prohibited_terms :: "string list \<Rightarrow> string \<Rightarrow> string list" where
  "check_prohibited_terms terms text =
     filter (\<lambda>term. sublist (lower term) (lower text)) terms"

definition ai_moderation_check :: "string \<Rightarrow> bool" where
  "ai_moderation_check text = False"

definition moderate_text :: "string list \<Rightarrow> string \<Rightarrow> ModerationResult" where
  "moderate_text terms text =
     \<lparr>flagged = ai_moderation_check text,
      categories = [],
      prohibited_terms = check_prohibited_terms terms text\<rparr>"

definition moderation_error_msg :: "ModerationResult \<Rightarrow> string" where
  "moderation_error_msg result =
     ''Campaign message failed moderation:'' @ [CHR 0x0A]
     @ ''  - Prohibited terms found: '' @ join '', '' (prohibited_terms result) @ [CHR 0x0A]"

definition moderate_campaign_message :: "string list \<Rightarrow> string \<Rightarrow> bool \<Rightarrow> error + bool" where
  "moderate_campaign_message terms msg strict =
     (let result = moderate_text terms msg in
      if \<not> is_safe result then
        (if strict then Inl (ValueError (moderation_error_msg result)) else Inr False)
      else Inr True)"

section \<open>Brand compliance (brand_compliance.py)\<close>

text \<open>
  A pixel as \<open>getdata()\<close> yields it: a tuple of band values, or a single number for a
  one-band image (on which \<open>len\<close> raises). Scores are the constants 100.0, 50.0 and 0.0,
  written as integers.
\<close>

datatype Pixel = Scalar int | Bands "int list"

record ComplianceResult =
  check_name :: string
  passed :: bool
  score :: int
  message :: string
  details :: "(string \<times> string) list"

definition hex_digit :: "char \<Rightarrow> int option" where
  "hex_digit c =
     (let n = (of_char c :: nat) in
      if 48 \<le> n \<and> n \<le> 57 then Some (int n - 48)
      else if 97 \<le> n \<and> n \<le> 102 then Some (int n - 87)
      else if 65 \<le> n \<and> n \<le> 70 then Some (int n - 55)
      else None)"

definition is_space :: "char \<Rightarrow> bool" where
  "is_space c = ((of_char c :: nat) \<in> {9, 10, 11, 12, 13, 32})"

text \<open>
  \<open>int(s, 16)\<close> on a slice of at most two characters: surrounding whitespace, an optional
  sign, then hexadecimal digits, at least one. (A \<open>0x\<close> prefix or an underscore needs
  three characters to be accepted, so neither can occur in such a slice.)
\<close>

definition int16 :: "string \<Rightarrow> int option" where
  "int16 s =
     (let t = rev (dropWhile is_space (rev (dropWhile is_space s)));
          sgn = (if t \<noteq> [] \<and> hd t = CHR ''-'' then - 1 else 1 :: int);
          u = (if t \<noteq> [] \<and> (hd t = CHR ''-'' \<or> hd t = CHR ''+'') then tl t else t)
      in if u = [] \<or> (\<exists>c \<in> set u. hex_digit c = None) then None
         else Some (sgn * foldl (\<lambda>a c. 16 * a + the (hex_digit c)) 0 u))"

definition int16_or_raise :: "string \<Rightarrow> error + int" where
  "int16_or_raise s =
     (case int16 s of
        Some v \<Rightarrow> Inr v
      | None \<Rightarrow> Inl (ValueError (''invalid literal for int() with base 16: ''
                                  @ [CHR 0x27] @ s @ [CHR 0x27])))"

definition hex_to_rgb :: "string \<Rightarrow> error + (int \<times> int \<times> int)" where
  "hex_to_rgb hex_color =
     (let h = dropWhile (\<lambda>c. c = CHR ''#'') hex_color in
      case int16_or_raise (take 2 h) of
        Inl e \<Rightarrow> Inl e
      | Inr r \<Rightarrow>
          (case int16_or_raise (take 2 (drop 2 h)) of
             Inl e \<Rightarrow> Inl e
           | Inr g \<Rightarrow>
               (case int16_or_raise (take 2 (drop 4 h)) of
                  Inl e \<Rightarrow> Inl e
                | Inr b \<Rightarrow> Inr (r, g, b))))"

definition tolerance :: int where
  "tolerance = 30"

text \<open>The loop over the sampled pixels: stops at the first match, raises at a one-band pixel.\<close>

fun scan_pixels :: "int \<times> int \<times> int \<Rightarrow> Pixel list \<Rightarrow> error + bool" where
  "scan_pixels brand_rgb [] = Inr False"
| "scan_pixels brand_rgb (Scalar v # pixels) =
     Inl (Exception (''object of type '' @ [CHR 0x27] @ ''int'' @ [CHR 0x27] @ '' has no len()''))"
| "scan_pixels (br, bg, bb) (Bands cs # pixels) =
     (if 3 \<le> length cs
         \<and> \<bar>cs ! 0 - br\<bar> < tolerance \<and> \<bar>cs ! 1 - bg\<bar> < tolerance \<and> \<bar>cs ! 2 - bb\<bar> < tolerance
      then Inr True
      else scan_pixels (br, bg, bb) pixels)"

text \<open>
  \<open>sample\<close> is \<open>list(image.resize((100, 100)).getdata())\<close>, the imaging library's part of
  the check; it may raise.
\<close>

definition color_found :: "('img \<Rightarrow> error + Pixel list) \<Rightarrow> string \<Rightarrow> 'img \<Rightarrow> error + bool" where
  "color_found sample color img =
     (case hex_to_rgb color of
        Inl e \<Rightarrow> Inl e
      | Inr brand_rgb \<Rightarrow>
          (case sample img of
             Inl e \<Rightarrow> Inl e
           | Inr pixels \<Rightarrow> scan_pixels brand_rgb pixels))"

definition check_color_presence ::
    "('img \<Rightarrow> error + Pixel list) \<Rightarrow> string option \<Rightarrow> 'img \<Rightarrow> ComplianceResult" where
  "check_color_presence sample color img =
     (if \<not> truthy color then
        \<lparr>check_name = ''color_presence'', passed = True, score = 100,
         message = ''No brand color specified - skipped'', details = []\<rparr>
      else
        (case color_found sample (the color) img of
           Inr True \<Rightarrow>
             \<lparr>check_name = ''color_presence'', passed = True, score = 100,
              message = ''Brand color '' @ the color @ '' detected'', details = []\<rparr>
         | Inr False \<Rightarrow>
             \<lparr>check_name = ''color_presence'', passed = False, score = 50,
              message = ''Brand color '' @ the color @ '' not prominently featured'',
              details = [(''brand_color'', the color)]\<rparr>
         | Inl e \<Rightarrow>
             \<lparr>check_name = ''color_presence'', passed = False, score = 0,
              message = ''Color check failed: '' @ str_error e, details = []\<rparr>))"

record BrandChecks =
  overall_passed :: bool
  overall_score :: int
  checks :: "ComplianceResult list"

definition run_brand_checks ::
    "('img \<Rightarrow> error + Pixel list) \<Rightarrow> string option \<Rightarrow> 'img \<Rightarrow> BrandChecks" where
  "run_brand_checks sample color img =
     (let color_check = check_color_presence sample color img in
      \<lparr>overall_passed = passed color_check,
       overall_score = score color_check,
       checks = [color_check]\<rparr>)"

text \<open>What it means for the sampled pixels to be one colour throughout.\<close>

definition is_rgb :: "int \<times> int \<times> int \<Rightarrow> Pixel \<Rightarrow> bool" where
  "is_rgb rgb p = (case p of Scalar v \<Rightarrow> False
                   | Bands cs \<Rightarrow> take 3 cs = [fst rgb, fst (snd rgb), snd (snd rgb)])"

definition filled_with :: "Pixel list \<Rightarrow> int \<times> int \<times> int \<Rightarrow> bool" where
  "filled_with pixels rgb = (pixels \<noteq> [] \<and> (\<forall>p \<in> set pixels. is_rgb rgb p))"

definition complement :: "int \<times> int \<times> int \<Rightarrow> int \<times> int \<times> int" where
  "complement rgb = (255 - fst rgb, 255 - fst (snd rgb), 255 - snd (snd rgb))"

section \<open>Image generation with retry (image_generator.py)\<close>

text \<open>
  The generation backend (request, download and decoding together) is a parameter: the
  number of calls made so far and the prompt give an image or an exception.
\<close>

type_synonym 'img backend = "nat \<Rightarrow> string \<Rightarrow> error + 'img"

definition generate ::
    "'img backend \<Rightarrow> nat \<Rightarrow> string \<Rightarrow> string \<Rightarrow> string \<Rightarrow> string option \<Rightarrow> error + ('img \<times> string)" where
  "generate backend calls pname pdesc audience color =
     (let prompt = build_prompt pname pdesc audience color in
      case backend calls prompt of
        Inr img \<Rightarrow> Inr (img, prompt)
      | Inl e \<Rightarrow> Inl (Exception (''Failed to generate image for '' @ pname @ '': '' @ str_error e)))"

text \<open>
  The \<open>for attempt in range(max_retries)\<close> loop, with the attempts still to make, the last
  error and the backend's call counter. It leaves with the image at the first success,
  or with \<open>last_error\<close> when the range is exhausted.
\<close>

fun retry_loop ::
    "'img backend \<Rightarrow> string \<Rightarrow> string \<Rightarrow> string \<Rightarrow> string option \<Rightarrow> nat \<Rightarrow> error option \<Rightarrow> nat
     \<Rightarrow> (error option + ('img \<times> string)) \<times> nat" where
  "retry_loop backend pname pdesc audience color 0 last_error calls = (Inl last_error, calls)"
| "retry_loop backend pname pdesc audience color (Suc k) last_error calls =
     (case generate backend calls pname pdesc audience color of
        Inr r \<Rightarrow> (Inr r, Suc calls)
      | Inl e \<Rightarrow> retry_loop backend pname pdesc audience color k (Some e) (Suc calls))"

definition str_last_error :: "error option \<Rightarrow> string" where
  "str_last_error last_error = (case last_error of None \<Rightarrow> ''None'' | Some e \<Rightarrow> str_error e)"

definition generate_with_retry ::
    "'img backend \<Rightarrow> string \<Rightarrow> string \<Rightarrow> string \<Rightarrow> string option \<Rightarrow> int \<Rightarrow> nat
     \<Rightarrow> (error + ('img \<times> string)) \<times> nat" where
  "generate_with_retry backend pname pdesc audience color max_retries calls =
     (case retry_loop backend pname pdesc audience color (nat max_retries) None calls of
        (Inr r, calls') \<Rightarrow> (Inr r, calls')
      | (Inl last_error, calls') \<Rightarrow>
          (Inl (Exception (''Failed after '' @ str_int max_retries @ '' attempts: ''
                           @ str_last_error last_error)), calls'))"

definition default_max_retries :: int where
  "default_max_retries = 3"

section \<open>The orchestrator (pipeline.py)\<close>

subsection \<open>Configuration, report and state\<close>

record TextOverlay =
  font_size_base :: int
  padding :: int
  text_color :: string
  stroke_color :: string
  stroke_width :: int
  position :: string

record Config =
  aspect_ratios :: "AspectRatio list"
  text_overlay :: TextOverlay

definition load_config :: Config where
  "load_config =
     \<lparr>aspect_ratios =
        [\<lparr>r_name = ''square'', ratio = [1, 1], width = 1080, height = 1080\<rparr>,
         \<lparr>r_name = ''story'', ratio = [9, 16], width = 1080, height = 1920\<rparr>,
         \<lparr>r_name = ''landscape'', ratio = [16, 9], width = 1920, height = 1080\<rparr>],
      text_overlay =
        \<lparr>font_size_base = 72, padding = 60, text_color = ''#FFFFFF'',
         stroke_color = ''#000000'', stroke_width = 3, position = ''bottom''\<rparr>\<rparr>"

record ComplianceEntry =
  ce_product_id :: string
  ce_product_name :: string
  compliance :: BrandChecks

record Variant =
  v_aspect_ratio :: string
  v_file_path :: string

record ProductReport =
  pr_product_id :: string
  pr_product_name :: string
  pr_source :: string
  pr_prompt_used :: "string option"
  pr_compliance :: "BrandChecks option"
  variants :: "Variant list"

record Localization =
  enabled :: bool
  target_language :: string
  original_message :: string
  localized_message :: "string option"

record Statistics =
  total_products :: nat
  total_assets :: nat
  assets_generated :: nat
  assets_reused :: nat
  compliance_passed :: nat
  compliance_total :: nat

record Report =
  r_campaign_id :: string
  timestamp :: string
  content_moderation :: string
  localization :: Localization
  brand_compliance :: string
  report_products :: "ProductReport list"
  statistics :: Statistics

text \<open>
  What a run changes: the images written so far (oldest first), the number of calls made to
  the generation backend, and the two lists the pipeline object accumulates.
\<close>

record 'img RunState =
  saved :: "(Path \<times> 'img) list"
  api_calls :: nat
  generated_assets :: "GeneratedAsset list"
  compliance_results :: "ComplianceEntry list"

definition new_pipeline :: "'img RunState" where
  "new_pipeline = \<lparr>saved = [], api_calls = 0, generated_assets = [], compliance_results = []\<rparr>"

text \<open>
  The collaborators of a run, outside the orchestrator: the campaign directory, the brief
  loader, the two backends, the file system (what exists and what an image file holds may
  depend on the images written so far), the rendering engine and the writers (opening
  and writing the image and report files). Each may raise.
\<close>

record 'img Env =
  campaign_path :: Path
  cwd :: Path
  read_brief :: "Path \<Rightarrow> error + CampaignBrief"
  translator_backend :: translator
  image_backend :: "'img backend"
  path_exists :: "(Path \<times> 'img) list \<Rightarrow> Path \<Rightarrow> bool"
  image_open :: "(Path \<times> 'img) list \<Rightarrow> Path \<Rightarrow> error + 'img"
  resize_for_aspect_ratio :: "'img \<Rightarrow> int \<Rightarrow> int \<Rightarrow> error + 'img"
  add_text_overlay :: "'img \<Rightarrow> string \<Rightarrow> TextOverlay \<Rightarrow> error + 'img"
  add_logo :: "(Path \<times> 'img) list \<Rightarrow> 'img \<Rightarrow> Path \<Rightarrow> error + 'img"
  sample_pixels :: "'img \<Rightarrow> error + Pixel list"
  image_save :: "(Path \<times> 'img) list \<Rightarrow> 'img \<Rightarrow> Path \<Rightarrow> error option"
  report_dump :: "(Path \<times> 'img) list \<Rightarrow> Path \<Rightarrow> error option"

subsection \<open>Storage\<close>

definition load_image :: "'img Env \<Rightarrow> 'img RunState \<Rightarrow> Path \<Rightarrow> error + 'img" where
  "load_image env st image_path =
     (if \<not> path_exists env (saved st) image_path
      then Inl (FileNotFoundError (''Image not found: '' @ str_path image_path))
      else (case image_open env (saved st) image_path of
              Inr img \<Rightarrow> Inr img
            | Inl e \<Rightarrow> Inl (ValueError (''Failed to load image '' @ str_path image_path
                                         @ '': '' @ str_error e))))"

definition output_file :: "Path \<Rightarrow> string \<Rightarrow> string \<Rightarrow> Path" where
  "output_file campaign_root pid ratio_name =
     path_div (path_div (path_div (output_dir campaign_root) pid) ratio_name) ''campaign_post.png''"

definition save_output ::
    "'img Env \<Rightarrow> 'img RunState \<Rightarrow> 'img \<Rightarrow> string \<Rightarrow> string \<Rightarrow> (error + Path) \<times> 'img RunState" where
  "save_output env st img pid ratio_name =
     (let fpath = output_file (campaign_path env) pid ratio_name in
      case image_save env (saved st) img fpath of
        Some e \<Rightarrow> (Inl e, st)
      | None \<Rightarrow> (Inr fpath, st\<lparr>saved := saved st @ [(fpath, img)]\<rparr>))"

subsection \<open>The loop over aspect ratios\<close>

text \<open>\<open>brief.brand_elements.primary_color if brief.brand_elements else None\<close>.\<close>

definition brief_color :: "CampaignBrief \<Rightarrow> string option" where
  "brief_color brief =
     (case brand_elements brief of None \<Rightarrow> None | Some be \<Rightarrow> Some (primary_color be))"

text \<open>The logo reference, when \<open>brief.brand_elements and brief.brand_elements.logo\<close> holds.\<close>

definition brief_logo :: "CampaignBrief \<Rightarrow> string option" where
  "brief_logo brief =
     (case brand_elements brief of
        None \<Rightarrow> None
      | Some be \<Rightarrow> if truthy (logo be) then logo be else None)"

definition apply_logo :: "'img Env \<Rightarrow> 'img RunState \<Rightarrow> CampaignBrief \<Rightarrow> 'img \<Rightarrow> error + 'img" where
  "apply_logo env st brief with_text =
     (case brief_logo brief of
        None \<Rightarrow> Inr with_text
      | Some l \<Rightarrow>
          (case find_asset (campaign_path env) (path_exists env (saved st)) (Some l) of
             None \<Rightarrow> Inr with_text
           | Some logo_path \<Rightarrow> add_logo env (saved st) with_text logo_path))"

definition compliance_entry :: "'img Env \<Rightarrow> CampaignBrief \<Rightarrow> Product \<Rightarrow> 'img \<Rightarrow> ComplianceEntry" where
  "compliance_entry env brief product with_text =
     \<lparr>ce_product_id = p_id product,
      ce_product_name = p_name product,
      compliance = run_brand_checks (sample_pixels env) (brief_color brief) with_text\<rparr>"

definition asset_record ::
    "Product \<Rightarrow> AspectRatio \<Rightarrow> Path \<Rightarrow> string \<Rightarrow> string option \<Rightarrow> GeneratedAsset" where
  "asset_record product r opath src prompt =
     \<lparr>product_id = p_id product,
      product_name = p_name product,
      aspect_ratio = r_name r,
      file_path = str_path opath,
      source = src,
      prompt_used = prompt\<rparr>"

text \<open>
  One pass of the inner loop. The result is the exception that ended the run, if any, and
  the state reached. The last step is the path printed relative to the campaign root.
\<close>

definition process_ratio ::
    "'img Env \<Rightarrow> Config \<Rightarrow> CampaignBrief \<Rightarrow> Product \<Rightarrow> 'img \<Rightarrow> string \<Rightarrow> string option
     \<Rightarrow> AspectRatio \<Rightarrow> 'img RunState \<Rightarrow> error option \<times> 'img RunState" where
  "process_ratio env cfg brief product hero src prompt r st =
     (case resize_for_aspect_ratio env hero (width r) (height r) of
        Inl e \<Rightarrow> (Some e, st)
      | Inr resized \<Rightarrow>
     (case add_text_overlay env resized (campaign_message brief) (text_overlay cfg) of
        Inl e \<Rightarrow> (Some e, st)
      | Inr with_text \<Rightarrow>
     (case apply_logo env st brief with_text of
        Inl e \<Rightarrow> (Some e, st)
      | Inr final \<Rightarrow>
     (let st1 = (if r_name r = ''square''
                 then st\<lparr>compliance_results :=
                           compliance_results st @ [compliance_entry env brief product final]\<rparr>
                 else st)
      in case save_output env st1 final (p_id product) (r_name r) of
        (Inl e, st2) \<Rightarrow> (Some e, st2)
      | (Inr opath, st2) \<Rightarrow>
     (let st3 = st2\<lparr>generated_assets :=
                      generated_assets st2 @ [asset_record product r opath src prompt]\<rparr>
      in case relative_to opath (campaign_path env) of
        Inl e \<Rightarrow> (Some e, st3)
      | Inr rel \<Rightarrow> (None, st3))))))"

fun process_ratios ::
    "'img Env \<Rightarrow> Config \<Rightarrow> CampaignBrief \<Rightarrow> Product \<Rightarrow> 'img \<Rightarrow> string \<Rightarrow> string option
     \<Rightarrow> AspectRatio list \<Rightarrow> 'img RunState \<Rightarrow> error option \<times> 'img RunState" where
  "process_ratios env cfg brief product hero src prompt [] st = (None, st)"
| "process_ratios env cfg brief product hero src prompt (r # rs) st =
     (case process_ratio env cfg brief product hero src prompt r st of
        (Some e, st') \<Rightarrow> (Some e, st')
      | (None, st') \<Rightarrow> process_ratios env cfg brief product hero src prompt rs st')"

subsection \<open>The loop over products\<close>

definition process_product ::
    "'img Env \<Rightarrow> Config \<Rightarrow> CampaignBrief \<Rightarrow> Product \<Rightarrow> 'img RunState
     \<Rightarrow> error option \<times> 'img RunState" where
  "process_product env cfg brief product st =
     (case find_asset (campaign_path env) (path_exists env (saved st)) (p_hero_image product) of
        Some hero_image_path \<Rightarrow>
          (case load_image env st hero_image_path of
             Inl e \<Rightarrow> (Some e, st)
           | Inr hero \<Rightarrow>
               process_ratios env cfg brief product hero ''existing'' None (aspect_ratios cfg) st)
      | None \<Rightarrow>
          (case generate_with_retry (image_backend env) (p_name product) (p_description product)
                  (target_audience brief) (brief_color brief) default_max_retries (api_calls st) of
             (Inl e, calls) \<Rightarrow> (Some e, st\<lparr>api_calls := calls\<rparr>)
           | (Inr (hero, prompt), calls) \<Rightarrow>
               process_ratios env cfg brief product hero ''generated'' (Some prompt)
                 (aspect_ratios cfg) (st\<lparr>api_calls := calls\<rparr>)))"

fun process_products ::
    "'img Env \<Rightarrow> Config \<Rightarrow> CampaignBrief \<Rightarrow> Product list \<Rightarrow> 'img RunState
     \<Rightarrow> error option \<times> 'img RunState" where
  "process_products env cfg brief [] st = (None, st)"
| "process_products env cfg brief (p # ps) st =
     (case process_product env cfg brief p st of
        (Some e, st') \<Rightarrow> (Some e, st')
      | (None, st') \<Rightarrow> process_products env cfg brief ps st')"

subsection \<open>Localization step and report\<close>

definition is_english :: "CampaignBrief \<Rightarrow> bool" where
  "is_english brief =
     (language (target_market brief) = ''en'' \<or> language (target_market brief) = ''en-US'')"

definition localize :: "'img Env \<Rightarrow> CampaignBrief \<Rightarrow> CampaignBrief" where
  "localize env brief =
     (if language (target_market brief) \<noteq> ''en-US'' \<and> language (target_market brief) \<noteq> ''en''
      then
        let target_lang = hd (split_on CHR ''-'' (language (target_market brief)));
            brief1 = brief\<lparr>campaign_message :=
                        translate_text (translator_backend env) (campaign_message brief)
                          target_lang ''en''\<rparr>
        in (case brand_elements brief1 of
              None \<Rightarrow> brief1
            | Some be \<Rightarrow>
                brief1\<lparr>brand_elements := Some (be\<lparr>font := get_font_for_language target_lang\<rparr>)\<rparr>)
      else brief)"

definition product_report :: "'img RunState \<Rightarrow> Product \<Rightarrow> ProductReport" where
  "product_report st product =
     (let product_assets = filter (\<lambda>a. product_id a = p_id product) (generated_assets st);
          compliance_data =
            map_option compliance
              (find (\<lambda>r. ce_product_id r = p_id product) (compliance_results st))
      in \<lparr>pr_product_id = p_id product,
          pr_product_name = p_name product,
          pr_source = (case product_assets of [] \<Rightarrow> ''unknown'' | a # as \<Rightarrow> source a),
          pr_prompt_used = (case product_assets of [] \<Rightarrow> None | a # as \<Rightarrow> prompt_used a),
          pr_compliance = compliance_data,
          variants = map (\<lambda>asset. \<lparr>v_aspect_ratio = aspect_ratio asset,
                                    v_file_path = file_path asset\<rparr>) product_assets\<rparr>)"

definition generate_report :: "'img Env \<Rightarrow> CampaignBrief \<Rightarrow> string \<Rightarrow> 'img RunState \<Rightarrow> Report" where
  "generate_report env brief original st =
     \<lparr>r_campaign_id = campaign_id brief,
      timestamp = str_path (cwd env),
      content_moderation = ''enabled'',
      localization =
        \<lparr>enabled = (\<not> is_english brief),
         target_language = language (target_market brief),
         original_message = original,
         localized_message = (if \<not> is_english brief then Some (campaign_message brief) else None)\<rparr>,
      brand_compliance = ''enabled'',
      report_products = map (product_report st) (products brief),
      statistics =
        \<lparr>total_products = length (products brief),
         total_assets = length (generated_assets st),
         assets_generated = length (filter (\<lambda>a. source a = ''generated'') (generated_assets st)),
         assets_reused = length (filter (\<lambda>a. source a = ''existing'') (generated_assets st)),
         compliance_passed =
           length (filter (\<lambda>r. overall_passed (compliance r)) (compliance_results st)),
         compliance_total = length (compliance_results st)\<rparr>\<rparr>"

subsection \<open>The run\<close>

text \<open>
  \<open>repr\<close> of the list of warnings, as the validation error prints it (for warnings without
  quotes, backslashes or control characters, which \<open>repr\<close> would escape).
\<close>

definition repr_list :: "string list \<Rightarrow> string" where
  "repr_list ws = ''['' @ join '', '' (map (\<lambda>w. [CHR 0x27] @ w @ [CHR 0x27]) ws) @ '']''"

definition report_path :: "Path \<Rightarrow> Path" where
  "report_path campaign_root = path_div (path_div campaign_root ''output'') ''generation_report.yaml''"

text \<open>Steps 1.6 to 6: everything that follows content moderation.\<close>

definition run_from_localization ::
    "'img Env \<Rightarrow> Config \<Rightarrow> CampaignBrief \<Rightarrow> 'img RunState \<Rightarrow> (error + Report) \<times> 'img RunState" where
  "run_from_localization env cfg brief0 st =
     (let original = campaign_message brief0;
          brief = localize env brief0
      in case process_products env cfg brief (products brief) st of
        (Some e, st') \<Rightarrow> (Inl e, st')
      | (None, st') \<Rightarrow>
     (let report = generate_report env brief original st' in
      case report_dump env (saved st') (report_path (campaign_path env)) of
        Some e \<Rightarrow> (Inl e, st')
      | None \<Rightarrow>
     (case relative_to (report_path (campaign_path env)) (campaign_path env) of
        Inl e \<Rightarrow> (Inl e, st')
      | Inr rel \<Rightarrow> (Inr report, st'))))"

text \<open>
  Steps 1 and 1.5, then the rest. The moderator is built with no term list of its own, and
  the message is moderated with \<open>strict\<close> left at its default, \<open>False\<close>.
\<close>

definition run ::
    "'img Env \<Rightarrow> Config \<Rightarrow> string \<Rightarrow> 'img RunState \<Rightarrow> (error + Report) \<times> 'img RunState" where
  "run env cfg brief_filename st =
     (case read_brief env (path_div (campaign_path env) brief_filename) of
        Inl e \<Rightarrow> (Inl e, st)
      | Inr brief0 \<Rightarrow>
     (if \<not> fst (validate_brief brief0)
      then (Inl (ValueError (''Invalid brief: '' @ repr_list (snd (validate_brief brief0)))), st)
      else
     (case moderate_campaign_message (moderator_terms None) (campaign_message brief0) False of
        Inl e \<Rightarrow> (Inl e, st)
      | Inr safe \<Rightarrow> run_from_localization env cfg brief0 st)))"

section \<open>Notions used to state the properties\<close>

text \<open>How many of the configured ratios are named \<open>square\<close>.\<close>

definition square_count :: "AspectRatio list \<Rightarrow> nat" where
  "square_count rs = length (filter (\<lambda>r. r_name r = ''square'') rs)"

text \<open>
  The records one product contributes: one per configured ratio, in configuration order,
  all with the same source and prompt.
\<close>

definition product_block ::
    "Path \<Rightarrow> AspectRatio list \<Rightarrow> Product \<Rightarrow> string \<times> string option \<Rightarrow> GeneratedAsset list" where
  "product_block root rs p sp =
     map (\<lambda>r. asset_record p r (output_file root (p_id p) (r_name r)) (fst sp) (snd sp)) rs"

text \<open>The two ways a product gets its hero image, with the prompt recorded for each.\<close>

definition source_ok :: "CampaignBrief \<Rightarrow> Product \<Rightarrow> string \<times> string option \<Rightarrow> bool" where
  "source_ok brief p sp =
     (sp = (''existing'', None)
      \<or> sp = (''generated'', Some (build_prompt (p_name p) (p_description p)
                                   (target_audience brief) (brief_color brief))))"

text \<open>The source and prompt fixed for a product before its ratio loop.\<close>

definition chosen_source ::
    "'img Env \<Rightarrow> CampaignBrief \<Rightarrow> 'img RunState \<Rightarrow> Product \<Rightarrow> string \<times> string option" where
  "chosen_source env brief st p =
     (case find_asset (campaign_path env) (path_exists env (saved st)) (p_hero_image p) of
        Some hp \<Rightarrow> (''existing'', None)
      | None \<Rightarrow> (''generated'', Some (build_prompt (p_name p) (p_description p)
                                      (target_audience brief) (brief_color brief))))"

text \<open>Two states that agree on everything but the compliance results.\<close>

definition same_outputs :: "'img RunState \<Rightarrow> 'img RunState \<Rightarrow> bool" where
  "same_outputs st st2 =
     (saved st = saved st2 \<and> api_calls st = api_calls st2
      \<and> generated_assets st = generated_assets st2)"

section \<open>An example campaign\<close>

text \<open>
  A campaign with two products, used to run the definitions on concrete input: the first
  product has a hero image under \<open>assets/\<close>, the second has none. Images are
  represented by their sampled pixels.
\<close>

definition shampoo :: Product where
  "shampoo = \<lparr>p_id = ''shampoo'', p_name = ''Acme Shampoo'',
              p_description = ''Gentle daily shampoo'', p_hero_image = Some ''shampoo.png''\<rparr>"

definition soap :: Product where
  "soap = \<lparr>p_id = ''soap'', p_name = ''Acme Soap'',
           p_description = ''Handmade soap bar'', p_hero_image = None\<rparr>"

definition acme_brief :: CampaignBrief where
  "acme_brief =
     \<lparr>campaign_id = ''acme-2024'',
      products = [shampoo, soap],
      target_market = \<lparr>region = ''US'', language = ''en-US''\<rparr>,
      target_audience = ''young professionals'',
      campaign_message = ''Guaranteed shine'',
      brand_elements = Some \<lparr>logo = None, primary_color = ''#FF0000'', font = ''Arial''\<rparr>\<rparr>"

definition single_brief :: CampaignBrief where
  "single_brief = acme_brief\<lparr>products := [soap]\<rparr>"

definition acme_root :: Path where
  "acme_root = path_of ''campaign/Acme''"

definition acme_env :: "(Pixel list) Env" where
  "acme_env =
     \<lparr>campaign_path = acme_root,
      cwd = path_of ''/work'',
      read_brief = (\<lambda>p. if p = path_div acme_root ''brief.yaml'' then Inr acme_brief
                          else Inl (FileNotFoundError (''Brief file not found: '' @ str_path p))),
      translator_backend = (\<lambda>s t x. Inl (Exception ''no network'')),
      image_backend = (\<lambda>n prompt. Inr [Bands [255, 0, 0]]),
      path_exists = (\<lambda>written p. p = path_div (assets_dir acme_root) ''shampoo.png''),
      image_open = (\<lambda>written p. Inr [Bands [10, 20, 30]]),
      resize_for_aspect_ratio = (\<lambda>img w h. Inr img),
      add_text_overlay = (\<lambda>img text c. Inr img),
      add_logo = (\<lambda>written img p. Inr img),
      sample_pixels = (\<lambda>img. Inr img),
      image_save = (\<lambda>written img p. None),
      report_dump = (\<lambda>written p. None)\<rparr>"

text \<open>The same campaign with a generation backend that always fails.\<close>

definition failing_backend :: "(Pixel list) backend" where
  "failing_backend = (\<lambda>n prompt. Inl (Exception ''rate limit''))"

definition failing_env :: "(Pixel list) Env" where
  "failing_env = acme_env\<lparr>image_backend := failing_backend\<rparr>"

text \<open>The default configuration without its \<open>square\<close> entry.\<close>

definition no_square_config :: Config where
  "no_square_config =
     load_config\<lparr>aspect_ratios := filter (\<lambda>r. r_name r \<noteq> ''square'') (aspect_ratios load_config)\<rparr>"

section \<open>Theorems\<close>

text \<open>
  C9. Localization no-op law: translating a text from a language to the same language
  returns the text unchanged, for every text and language; and for any pair of languages,
  when the translation backend raises, \<open>translate_text\<close> returns the original text. The
  function has no error result at all: a backend failure is never fatal.
\<close>

theorem translate_text_noop_and_fallback:
  "translate_text backend text lang lang = text
   \<and> (backend src_lang tgt_lang text = Inl e
        \<longrightarrow> translate_text backend text tgt_lang src_lang = text)"
  by (simp add: translate_text_def)

theorem translate_text_noop_and_fallback_witness:
  "translate_text (\<lambda>s t x. Inl (Exception ''backend down'')) ''Shine on'' ''es'' ''es'' = ''Shine on''
   \<and> translate_text (\<lambda>s t x. Inl (Exception ''backend down'')) ''Shine on'' ''es'' ''en'' = ''Shine on''"
  using translate_text_noop_and_fallback
    [of "\<lambda>s t x. Inl (Exception ''backend down'')" "''Shine on''" "''es''" "''en''" "''es''"
        "Exception ''backend down''"]
  by simp

text \<open>
  C4 (as amended). \<open>build_prompt\<close> joins, with single spaces and in this order: the product
  framing line, the description line, the audience style line, the fixed line
  "High quality, well-lit, studio setting.", then (only for a non-empty brand colour) the
  colour-accent line, and last the fixed line "Commercial photography, 4K quality.". The
  accent line is in the list of parts if and only if a non-empty brand colour was given;
  when present it is the fifth of six parts, after the first fixed line and before the
  last one.
\<close>

theorem build_prompt_fixed_order:
  "build_prompt n d a color =
     ''Professional product photography of '' @ n @ ''. Product details: '' @ d
       @ ''. Style: Clean, modern, appealing to '' @ a
       @ ''. High quality, well-lit, studio setting. ''
       @ (if truthy color then ''Incorporate '' @ the color @ '' color accent. '' else [])
       @ ''Commercial photography, 4K quality.''
   \<and> ((\<exists>c. accent_line c \<in> set (prompt_parts n d a color)) \<longleftrightarrow> truthy color)
   \<and> (truthy color \<longrightarrow>
        prompt_parts n d a color =
          [framing_line n, details_line d, style_line a,
           ''High quality, well-lit, studio setting.'',
           accent_line (the color), ''Commercial photography, 4K quality.''])
   \<and> (\<not> truthy color \<longrightarrow>
        prompt_parts n d a color =
          [framing_line n, details_line d, style_line a,
           ''High quality, well-lit, studio setting.'', ''Commercial photography, 4K quality.''])"
proof -
  have full: "build_prompt n d a color =
     ''Professional product photography of '' @ n @ ''. Product details: '' @ d
       @ ''. Style: Clean, modern, appealing to '' @ a
       @ ''. High quality, well-lit, studio setting. ''
       @ (if truthy color then ''Incorporate '' @ the color @ '' color accent. '' else [])
       @ ''Commercial photography, 4K quality.''"
    by (simp add: build_prompt_def prompt_parts_def framing_line_def details_line_def
        style_line_def accent_line_def)
  have iff: "(\<exists>c. accent_line c \<in> set (prompt_parts n d a color)) \<longleftrightarrow> truthy color"
    by (auto simp: prompt_parts_def framing_line_def details_line_def
        style_line_def accent_line_def)
  show ?thesis using full iff by (simp add: prompt_parts_def)
qed

theorem build_prompt_fixed_order_witness:
  "truthy (Some ''#FF0000'')
   \<and> prompt_parts ''Acme Soap'' ''Handmade soap bar'' ''young professionals'' (Some ''#FF0000'') =
       [''Professional product photography of Acme Soap.'',
        ''Product details: Handmade soap bar.'',
        ''Style: Clean, modern, appealing to young professionals.'',
        ''High quality, well-lit, studio setting.'',
        ''Incorporate #FF0000 color accent.'',
        ''Commercial photography, 4K quality.'']
   \<and> \<not> truthy (Some [])
   \<and> length (prompt_parts ''Acme Soap'' ''Handmade soap bar'' ''young professionals'' (Some [])) = 5"
  using build_prompt_fixed_order
          [of "''Acme Soap''" "''Handmade soap bar''" "''young professionals''" "Some ''#FF0000''"]
        build_prompt_fixed_order
          [of "''Acme Soap''" "''Handmade soap bar''" "''young professionals''" "Some []"]
  by (simp add: framing_line_def details_line_def style_line_def accent_line_def)

text \<open>
  C4 as stated fails: with a brand colour the prompt does not end with the colour-accent
  line. The last part is the fixed line "Commercial photography, 4K quality.", so the
  accent line does not come after all the fixed boilerplate. (And a brand colour given as
  the empty string adds no accent line.)
\<close>

theorem build_prompt_accent_not_last:
  "build_prompt ''Shampoo'' ''Gentle'' ''teens'' (Some ''#FF0000'') =
     ''Professional product photography of Shampoo. Product details: Gentle. Style: Clean, modern, appealing to teens. High quality, well-lit, studio setting. Incorporate #FF0000 color accent. Commercial photography, 4K quality.''
   \<and> last (prompt_parts ''Shampoo'' ''Gentle'' ''teens'' (Some ''#FF0000''))
       = ''Commercial photography, 4K quality.''
   \<and> last (prompt_parts ''Shampoo'' ''Gentle'' ''teens'' (Some ''#FF0000''))
       \<noteq> accent_line ''#FF0000''
   \<and> \<not> suffix (accent_line ''#FF0000'')
          (build_prompt ''Shampoo'' ''Gentle'' ''teens'' (Some ''#FF0000''))
   \<and> accent_line [] \<notin> set (prompt_parts ''Shampoo'' ''Gentle'' ''teens'' (Some []))"
  by (simp add: build_prompt_def prompt_parts_def framing_line_def details_line_def
        style_line_def accent_line_def suffix_to_prefix)

text \<open>
  C6. \<open>validate_brief\<close> returns \<open>is_valid = True\<close> exactly when the brief has at least two
  products. The warnings are, in this order: for fewer than two products one warning that
  ends with the actual count (0 or 1); for products without a hero image one warning that
  lists all their names, joined by commas; for missing brand elements one warning. Changing
  the brand elements or the hero images of a brief does not change \<open>is_valid\<close>.
\<close>

theorem validate_brief_valid_iff_two_products:
  "fst (validate_brief b) = (2 \<le> length (products b))
   \<and> snd (validate_brief b) =
       (if length (products b) < 2
        then [''Brief requires at least 2 products, found '' @ str_nat (length (products b))]
        else [])
       @ (if filter (\<lambda>p. \<not> truthy (p_hero_image p)) (products b) \<noteq> []
          then [''Products without hero images (will generate): ''
                  @ join '', '' (map p_name (filter (\<lambda>p. \<not> truthy (p_hero_image p)) (products b)))]
          else [])
       @ (if brand_elements b = None then [''No brand elements specified''] else [])
   \<and> (length (products b) = 0 \<longrightarrow>
        \<not> fst (validate_brief b)
        \<and> ''Brief requires at least 2 products, found 0'' \<in> set (snd (validate_brief b)))
   \<and> (length (products b) = 1 \<longrightarrow>
        \<not> fst (validate_brief b)
        \<and> ''Brief requires at least 2 products, found 1'' \<in> set (snd (validate_brief b)))
   \<and> fst (validate_brief (b\<lparr>brand_elements := be\<rparr>)) = fst (validate_brief b)
   \<and> fst (validate_brief (b\<lparr>products := map (\<lambda>p. p\<lparr>p_hero_image := h p\<rparr>) (products b)\<rparr>))
       = fst (validate_brief b)"
proof -
  have s0: "str_nat 0 = ''0''" by (simp add: str_nat.simps digit_char_def)
  have s1: "str_nat (Suc 0) = ''1''" by (simp add: str_nat.simps digit_char_def)
  show ?thesis by (auto simp: validate_brief_def Let_def s0 s1)
qed

theorem validate_brief_valid_iff_two_products_witness:
  "length (products single_brief) = 1
   \<and> \<not> fst (validate_brief single_brief)
   \<and> snd (validate_brief single_brief) =
       [''Brief requires at least 2 products, found 1'',
        ''Products without hero images (will generate): Acme Soap'']
   \<and> fst (validate_brief acme_brief)
   \<and> snd (validate_brief (acme_brief\<lparr>brand_elements := None\<rparr>)) =
       [''Products without hero images (will generate): Acme Soap'',
        ''No brand elements specified'']"
  using validate_brief_valid_iff_two_products [of single_brief None "\<lambda>p. None"]
        validate_brief_valid_iff_two_products [of acme_brief None "\<lambda>p. None"]
        validate_brief_valid_iff_two_products [of "acme_brief\<lparr>brand_elements := None\<rparr>" None "\<lambda>p. None"]
  by (simp add: single_brief_def acme_brief_def shampoo_def soap_def str_nat.simps digit_char_def)

text \<open>
  C7. \<open>find_asset\<close> returns \<open>None\<close> for an absent and for an empty reference. For a
  non-empty reference the result is a function of the reference and of the directory state
  at two paths only, the reference under the campaign root and its base name under
  \<open>assets/\<close>: two directory states that agree there give the same result. When the
  path under the campaign root exists it is the result, whether or not the path under
  \<open>assets/\<close> exists too; otherwise the \<open>assets/\<close> path if it exists, otherwise \<open>None\<close>.
\<close>

theorem find_asset_root_relative_first:
  "find_asset root ex None = None
   \<and> find_asset root ex (Some []) = None
   \<and> (reference \<noteq> [] \<and> ex (path_div root reference)
        \<longrightarrow> find_asset root ex (Some reference) = Some (path_div root reference))
   \<and> (reference \<noteq> [] \<and> \<not> ex (path_div root reference)
        \<and> ex (path_div (assets_dir root) (path_name (path_of reference)))
        \<longrightarrow> find_asset root ex (Some reference)
              = Some (path_div (assets_dir root) (path_name (path_of reference))))
   \<and> (reference \<noteq> [] \<and> \<not> ex (path_div root reference)
        \<and> \<not> ex (path_div (assets_dir root) (path_name (path_of reference)))
        \<longrightarrow> find_asset root ex (Some reference) = None)
   \<and> (ex (path_div root reference) = ex' (path_div root reference)
        \<and> ex (path_div (assets_dir root) (path_name (path_of reference)))
            = ex' (path_div (assets_dir root) (path_name (path_of reference)))
        \<longrightarrow> find_asset root ex (Some reference) = find_asset root ex' (Some reference))"
  by (simp add: find_asset_def Let_def)

theorem find_asset_root_relative_first_witness:
  "''img/logo.png'' \<noteq> []
   \<and> path_div acme_root ''img/logo.png'' = Path False [''campaign'', ''Acme'', ''img'', ''logo.png'']
   \<and> path_div (assets_dir acme_root) (path_name (path_of ''img/logo.png''))
       = Path False [''campaign'', ''Acme'', ''assets'', ''logo.png'']
   \<and> find_asset acme_root (\<lambda>p. True) (Some ''img/logo.png'')
       = Some (Path False [''campaign'', ''Acme'', ''img'', ''logo.png''])
   \<and> find_asset acme_root (\<lambda>p. p = Path False [''campaign'', ''Acme'', ''assets'', ''logo.png''])
         (Some ''img/logo.png'')
       = Some (Path False [''campaign'', ''Acme'', ''assets'', ''logo.png''])"
proof -
  have p1: "path_div acme_root ''img/logo.png''
              = Path False [''campaign'', ''Acme'', ''img'', ''logo.png'']"
    by (simp add: acme_root_def path_div_def path_join_def path_of_def)
  have p2: "path_div (assets_dir acme_root) (path_name (path_of ''img/logo.png''))
              = Path False [''campaign'', ''Acme'', ''assets'', ''logo.png'']"
    by (simp add: acme_root_def assets_dir_def path_div_def path_join_def path_of_def
        path_name_def)
  show ?thesis
    using find_asset_root_relative_first
            [of acme_root "\<lambda>p. True" "''img/logo.png''" "\<lambda>p. True"]
          find_asset_root_relative_first
            [of acme_root
                "\<lambda>p. p = Path False [''campaign'', ''Acme'', ''assets'', ''logo.png'']"
                "''img/logo.png''"
                "\<lambda>p. p = Path False [''campaign'', ''Acme'', ''assets'', ''logo.png'']"]
    by (simp add: p1 p2)
qed

subsection \<open>Colour presence\<close>

lemma take3_shape: "take 3 cs = [a, b, c] \<Longrightarrow> \<exists>rest. cs = a # b # c # rest"
proof -
  assume h: "take 3 cs = [a, b, c]"
  obtain x xs where 1: "cs = x # xs" using h by (cases cs) auto
  obtain y ys where 2: "xs = y # ys" using h 1 by (cases xs) auto
  obtain z zs where 3: "ys = z # zs" using h 1 2 by (cases ys) auto
  show ?thesis using h 1 2 3 by simp
qed

lemma scan_pixels_filled:
  "pixels \<noteq> [] \<Longrightarrow> \<forall>p \<in> set pixels. is_rgb (r', g', b') p \<Longrightarrow>
   scan_pixels (r, g, b) pixels
     = Inr (\<bar>r' - r\<bar> < tolerance \<and> \<bar>g' - g\<bar> < tolerance \<and> \<bar>b' - b\<bar> < tolerance)"
proof (induction pixels)
  case Nil
  then show ?case by simp
next
  case (Cons p ps)
  from Cons.prems obtain cs where p: "p = Bands cs" and t: "take 3 cs = [r', g', b']"
    by (cases p) (auto simp: is_rgb_def)
  from take3_shape [OF t] obtain rest where cs: "cs = r' # g' # b' # rest" by blast
  show ?case
  proof (cases "ps = []")
    case True
    then show ?thesis using p cs by simp
  next
    case False
    then have "scan_pixels (r, g, b) ps
       = Inr (\<bar>r' - r\<bar> < tolerance \<and> \<bar>g' - g\<bar> < tolerance \<and> \<bar>b' - b\<bar> < tolerance)"
      using Cons by simp
    then show ?thesis using p cs by simp
  qed
qed

lemma color_found_filled:
  "hex_to_rgb c = Inr (r, g, b) \<Longrightarrow> sample img = Inr pixels \<Longrightarrow>
   filled_with pixels (r', g', b') \<Longrightarrow>
   color_found sample c img
     = Inr (\<bar>r' - r\<bar> < 30 \<and> \<bar>g' - g\<bar> < 30 \<and> \<bar>b' - b\<bar> < 30)"
proof -
  assume h: "hex_to_rgb c = Inr (r, g, b)" and s: "sample img = Inr pixels"
    and f: "filled_with pixels (r', g', b')"
  have "scan_pixels (r, g, b) pixels
     = Inr (\<bar>r' - r\<bar> < tolerance \<and> \<bar>g' - g\<bar> < tolerance \<and> \<bar>b' - b\<bar> < tolerance)"
    using f scan_pixels_filled [of pixels r' g' b' r g b] unfolding filled_with_def by blast
  then show ?thesis using h s by (simp add: color_found_def tolerance_def)
qed

lemma ccp_skip:
  "\<not> truthy color \<Longrightarrow>
     passed (check_color_presence sample color img)
     \<and> score (check_color_presence sample color img) = 100"
  by (simp add: check_color_presence_def)

lemma ccp_found:
  "truthy color \<Longrightarrow> color_found sample (the color) img = Inr True \<Longrightarrow>
     passed (check_color_presence sample color img)
     \<and> score (check_color_presence sample color img) = 100"
  by (simp add: check_color_presence_def)

lemma ccp_absent:
  "truthy color \<Longrightarrow> color_found sample (the color) img = Inr False \<Longrightarrow>
     \<not> passed (check_color_presence sample color img)
     \<and> score (check_color_presence sample color img) = 50"
  by (simp add: check_color_presence_def)

lemma ccp_error:
  "truthy color \<Longrightarrow> color_found sample (the color) img = Inl e \<Longrightarrow>
     \<not> passed (check_color_presence sample color img)
     \<and> score (check_color_presence sample color img) = 0
     \<and> message (check_color_presence sample color img) = ''Color check failed: '' @ str_error e"
  by (simp add: check_color_presence_def)

lemma color_found_complement:
  "hex_to_rgb c = Inr (r, g, b) \<Longrightarrow> sample img = Inr pixels \<Longrightarrow>
   filled_with pixels (complement (r, g, b)) \<Longrightarrow>
   color_found sample c img
     = Inr (\<bar>255 - 2 * r\<bar> < 30 \<and> \<bar>255 - 2 * g\<bar> < 30 \<and> \<bar>255 - 2 * b\<bar> < 30)"
proof -
  assume h: "hex_to_rgb c = Inr (r, g, b)" and s: "sample img = Inr pixels"
    and f: "filled_with pixels (complement (r, g, b))"
  have e: "255 - r - r = 255 - 2 * r" "255 - g - g = 255 - 2 * g" "255 - b - b = 255 - 2 * b"
    by simp_all
  have "filled_with pixels (255 - r, 255 - g, 255 - b)"
    using f by (simp add: complement_def)
  then have "color_found sample c img
     = Inr (\<bar>255 - r - r\<bar> < 30 \<and> \<bar>255 - g - g\<bar> < 30 \<and> \<bar>255 - b - b\<bar> < 30)"
    using color_found_filled [of c r g b sample img pixels "255 - r" "255 - g" "255 - b"] h s
    by blast
  then show ?thesis by (simp only: e)
qed

lemma hex_red: "hex_to_rgb ''#FF0000'' = Inr (255, 0, 0)" by code_simp

lemma hex_grey: "hex_to_rgb ''#808080'' = Inr (128, 128, 128)" by code_simp

lemma hex_short: "hex_to_rgb ''#FFF''
   = Inl (ValueError (''invalid literal for int() with base 16: '' @ [CHR 0x27, CHR 0x27]))"
  by code_simp

text \<open>
  C5 (as amended). With no brand colour (absent or empty) \<open>check_color_presence\<close> passes
  with score 100. With a brand colour that parses to \<open>(r, g, b)\<close>: if every sampled pixel
  is exactly that colour, the check passes with score 100; if every sampled pixel is the
  complementary colour \<open>(255 - r, 255 - g, 255 - b)\<close>, the check fails with score 50 when
  at least one channel \<open>c\<close> of the brand colour has \<open>30 \<le> \<bar>255 - 2 * c\<bar>\<close>, and passes with
  score 100 when all three channels have \<open>\<bar>255 - 2 * c\<bar> < 30\<close> (the tolerance is 30). When
  the check raises inside (the colour does not parse, sampling fails, or a pixel has a
  single band), the result is failed with score 0 and the error in the message.
\<close>

theorem check_color_presence_scores:
  "(\<not> truthy color \<longrightarrow>
      passed (check_color_presence sample color img)
      \<and> score (check_color_presence sample color img) = 100)
   \<and> (truthy color \<and> hex_to_rgb (the color) = Inr rgb \<and> sample img = Inr pixels
        \<and> filled_with pixels rgb \<longrightarrow>
      passed (check_color_presence sample color img)
      \<and> score (check_color_presence sample color img) = 100)
   \<and> (truthy color \<and> hex_to_rgb (the color) = Inr rgb \<and> sample img = Inr pixels
        \<and> filled_with pixels (complement rgb)
        \<and> (30 \<le> \<bar>255 - 2 * fst rgb\<bar> \<or> 30 \<le> \<bar>255 - 2 * fst (snd rgb)\<bar>
             \<or> 30 \<le> \<bar>255 - 2 * snd (snd rgb)\<bar>) \<longrightarrow>
      \<not> passed (check_color_presence sample color img)
      \<and> score (check_color_presence sample color img) = 50)
   \<and> (truthy color \<and> hex_to_rgb (the color) = Inr rgb \<and> sample img = Inr pixels
        \<and> filled_with pixels (complement rgb)
        \<and> \<bar>255 - 2 * fst rgb\<bar> < 30 \<and> \<bar>255 - 2 * fst (snd rgb)\<bar> < 30
        \<and> \<bar>255 - 2 * snd (snd rgb)\<bar> < 30 \<longrightarrow>
      passed (check_color_presence sample color img)
      \<and> score (check_color_presence sample color img) = 100)
   \<and> (truthy color \<and> color_found sample (the color) img = Inl e \<longrightarrow>
      \<not> passed (check_color_presence sample color img)
      \<and> score (check_color_presence sample color img) = 0
      \<and> message (check_color_presence sample color img) = ''Color check failed: '' @ str_error e)"
  (is "?A \<and> ?B \<and> ?C \<and> ?D \<and> ?E")
proof -
  obtain r g b where rgb: "rgb = (r, g, b)" by (cases rgb) auto
  have a: ?A using ccp_skip [of color sample img] by blast
  have b: ?B
  proof
    assume h: "truthy color \<and> hex_to_rgb (the color) = Inr rgb \<and> sample img = Inr pixels
        \<and> filled_with pixels rgb"
    then have "color_found sample (the color) img = Inr True"
      using color_found_filled [of "the color" r g b sample img pixels r g b] rgb by simp
    then show "passed (check_color_presence sample color img)
      \<and> score (check_color_presence sample color img) = 100"
      using h ccp_found [of color sample img] by blast
  qed
  have cf: "hex_to_rgb (the color) = Inr rgb \<Longrightarrow> sample img = Inr pixels \<Longrightarrow>
        filled_with pixels (complement rgb) \<Longrightarrow>
        color_found sample (the color) img
          = Inr (\<bar>255 - 2 * r\<bar> < 30 \<and> \<bar>255 - 2 * g\<bar> < 30 \<and> \<bar>255 - 2 * b\<bar> < 30)"
    using color_found_complement [of "the color" r g b sample img pixels] rgb by blast
  have c: ?C
  proof
    assume h: "truthy color \<and> hex_to_rgb (the color) = Inr rgb \<and> sample img = Inr pixels
        \<and> filled_with pixels (complement rgb)
        \<and> (30 \<le> \<bar>255 - 2 * fst rgb\<bar> \<or> 30 \<le> \<bar>255 - 2 * fst (snd rgb)\<bar>
             \<or> 30 \<le> \<bar>255 - 2 * snd (snd rgb)\<bar>)"
    then have "\<not> (\<bar>255 - 2 * r\<bar> < 30 \<and> \<bar>255 - 2 * g\<bar> < 30 \<and> \<bar>255 - 2 * b\<bar> < 30)"
      using rgb by auto
    then have "color_found sample (the color) img = Inr False"
      using cf h by simp
    then show "\<not> passed (check_color_presence sample color img)
      \<and> score (check_color_presence sample color img) = 50"
      using h ccp_absent [of color sample img] by blast
  qed
  have d: ?D
  proof
    assume h: "truthy color \<and> hex_to_rgb (the color) = Inr rgb \<and> sample img = Inr pixels
        \<and> filled_with pixels (complement rgb)
        \<and> \<bar>255 - 2 * fst rgb\<bar> < 30 \<and> \<bar>255 - 2 * fst (snd rgb)\<bar> < 30
        \<and> \<bar>255 - 2 * snd (snd rgb)\<bar> < 30"
    then have "\<bar>255 - 2 * r\<bar> < 30 \<and> \<bar>255 - 2 * g\<bar> < 30 \<and> \<bar>255 - 2 * b\<bar> < 30"
      using rgb by auto
    then have "color_found sample (the color) img = Inr True"
      using cf h by simp
    then show "passed (check_color_presence sample color img)
      \<and> score (check_color_presence sample color img) = 100"
      using h ccp_found [of color sample img] by blast
  qed
  have e: ?E using ccp_error [of color sample img e] by blast
  from a b c d e show ?thesis by (intro conjI)
qed

theorem check_color_presence_scores_witness:
  "truthy (Some ''#FF0000'')
   \<and> hex_to_rgb ''#FF0000'' = Inr (255, 0, 0)
   \<and> filled_with (replicate 10000 (Bands [255, 0, 0])) (255, 0, 0)
   \<and> passed (check_color_presence Inr (Some ''#FF0000'') (replicate 10000 (Bands [255, 0, 0])))
   \<and> score (check_color_presence Inr (Some ''#FF0000'') (replicate 10000 (Bands [255, 0, 0]))) = 100
   \<and> filled_with (replicate 10000 (Bands [0, 255, 255])) (complement (255, 0, 0))
   \<and> (30::int) \<le> \<bar>255 - 2 * 255\<bar>
   \<and> \<not> passed (check_color_presence Inr (Some ''#FF0000'') (replicate 10000 (Bands [0, 255, 255])))
   \<and> score (check_color_presence Inr (Some ''#FF0000'') (replicate 10000 (Bands [0, 255, 255]))) = 50
   \<and> color_found Inr ''#FFF'' (replicate 10000 (Bands [255, 255, 255]))
       = Inl (ValueError (''invalid literal for int() with base 16: '' @ [CHR 0x27, CHR 0x27]))
   \<and> \<not> passed (check_color_presence Inr (Some ''#FFF'') (replicate 10000 (Bands [255, 255, 255])))
   \<and> score (check_color_presence Inr (Some ''#FFF'') (replicate 10000 (Bands [255, 255, 255]))) = 0
   \<and> \<not> truthy None
   \<and> score (check_color_presence Inr None (replicate 10000 (Bands [255, 255, 255]))) = 100"
proof -
  have f1: "filled_with (replicate 10000 (Bands [255, 0, 0])) (255, 0, 0)"
    by (simp add: filled_with_def is_rgb_def)
  have f2: "filled_with (replicate 10000 (Bands [0, 255, 255])) (complement (255, 0, 0))"
    by (simp add: filled_with_def is_rgb_def complement_def)
  have cf: "color_found Inr ''#FFF'' (replicate 10000 (Bands [255, 255, 255]))
       = Inl (ValueError (''invalid literal for int() with base 16: '' @ [CHR 0x27, CHR 0x27]))"
    by (simp add: color_found_def hex_short)
  show ?thesis
    using check_color_presence_scores
            [of "Some ''#FF0000''" Inr "replicate 10000 (Bands [255, 0, 0])" "(255, 0, 0)"
                "replicate 10000 (Bands [255, 0, 0])" "Exception []"]
          check_color_presence_scores
            [of "Some ''#FF0000''" Inr "replicate 10000 (Bands [0, 255, 255])" "(255, 0, 0)"
                "replicate 10000 (Bands [0, 255, 255])" "Exception []"]
          check_color_presence_scores
            [of "Some ''#FFF''" Inr "replicate 10000 (Bands [255, 255, 255])" "(255, 0, 0)"
                "[]" "ValueError (''invalid literal for int() with base 16: '' @ [CHR 0x27, CHR 0x27])"]
          check_color_presence_scores
            [of None Inr "replicate 10000 (Bands [255, 255, 255])" "(255, 0, 0)"
                "[]" "Exception []"]
          f1 f2 cf hex_red
    by simp
qed

text \<open>
  C5 as stated fails for a mid-grey brand colour: for \<open>#808080\<close>, that is (128, 128, 128),
  the complementary colour is (127, 127, 127), one step away in each channel and so within
  the tolerance of 30; an image filled with it passes with score 100 instead of failing
  with score 50.
\<close>

theorem check_color_presence_grey_complement_passes:
  "hex_to_rgb ''#808080'' = Inr (128, 128, 128)
   \<and> complement (128, 128, 128) = (127, 127, 127)
   \<and> filled_with (replicate 10000 (Bands [127, 127, 127])) (127, 127, 127)
   \<and> passed (check_color_presence Inr (Some ''#808080'') (replicate 10000 (Bands [127, 127, 127])))
   \<and> score (check_color_presence Inr (Some ''#808080'') (replicate 10000 (Bands [127, 127, 127])))
       = 100"
proof -
  have f: "filled_with (replicate 10000 (Bands [127, 127, 127])) (127, 127, 127)"
    by (simp add: filled_with_def is_rgb_def)
  have "color_found Inr ''#808080'' (replicate 10000 (Bands [127, 127, 127])) = Inr True"
    using color_found_filled [of "''#808080''" 128 128 128 Inr
            "replicate 10000 (Bands [127, 127, 127])" "replicate 10000 (Bands [127, 127, 127])"
            127 127 127] hex_grey f
    by simp
  then show ?thesis
    using f hex_grey by (simp add: check_color_presence_def complement_def)
qed

subsection \<open>Bounded retry\<close>

lemma str_int_3: "str_int 3 = ''3''"
  by (simp add: str_int_def str_nat.simps digit_char_def)

lemma generate_fail:
  "backend calls (build_prompt n d a c) = Inl e \<Longrightarrow>
   generate backend calls n d a c
     = Inl (Exception (''Failed to generate image for '' @ n @ '': '' @ str_error e))"
  by (simp add: generate_def)

lemma generate_success:
  "backend calls (build_prompt n d a c) = Inr im \<Longrightarrow>
   generate backend calls n d a c = Inr (im, build_prompt n d a c)"
  by (simp add: generate_def)

lemma retry_loop_calls:
  "calls \<le> snd (retry_loop backend n d a c k le calls)
   \<and> snd (retry_loop backend n d a c k le calls) \<le> calls + k"
proof (induction k arbitrary: le calls)
  case 0
  show ?case by simp
next
  case (Suc k)
  show ?case
  proof (cases "generate backend calls n d a c")
    case (Inl e)
    then show ?thesis using Suc [of "Suc calls" "Some e"] by simp
  next
    case (Inr r)
    then show ?thesis by simp
  qed
qed

lemma retry_loop_all_fail:
  "\<forall>i<k. backend (calls + i) (build_prompt n d a c) = Inl (err i) \<Longrightarrow>
   retry_loop backend n d a c k le calls
     = (Inl (if k = 0 then le
             else Some (Exception (''Failed to generate image for '' @ n @ '': ''
                                   @ str_error (err (k - 1))))),
        calls + k)"
proof (induction k arbitrary: le calls err)
  case 0
  show ?case by simp
next
  case (Suc k)
  have first: "backend calls (build_prompt n d a c) = Inl (err 0)"
    using Suc.prems by force
  have rest: "\<forall>i<k. backend (Suc calls + i) (build_prompt n d a c) = Inl (err (Suc i))"
    using Suc.prems by force
  have step: "retry_loop backend n d a c (Suc k) le calls
     = retry_loop backend n d a c k
         (Some (Exception (''Failed to generate image for '' @ n @ '': '' @ str_error (err 0))))
         (Suc calls)"
    using first by (simp add: generate_def)
  have "retry_loop backend n d a c k
         (Some (Exception (''Failed to generate image for '' @ n @ '': '' @ str_error (err 0))))
         (Suc calls)
     = (Inl (if k = 0
             then Some (Exception (''Failed to generate image for '' @ n @ '': ''
                                   @ str_error (err 0)))
             else Some (Exception (''Failed to generate image for '' @ n @ '': ''
                                   @ str_error (err (Suc (k - 1)))))),
        Suc calls + k)"
    using Suc.IH [of "Suc calls" "\<lambda>i. err (Suc i)"
                     "Some (Exception (''Failed to generate image for '' @ n @ '': ''
                                       @ str_error (err 0)))"] rest
    by simp
  then show ?case
    using step by (cases k) simp_all
qed

lemma retry_loop_first_success:
  "\<forall>i<j. backend (calls + i) (build_prompt n d a c) = Inl (err i) \<Longrightarrow>
   j < k \<Longrightarrow> backend (calls + j) (build_prompt n d a c) = Inr im \<Longrightarrow>
   retry_loop backend n d a c k le calls = (Inr (im, build_prompt n d a c), Suc (calls + j))"
proof (induction j arbitrary: k le calls err)
  case 0
  then obtain k' where k: "k = Suc k'" by (cases k) auto
  have "generate backend calls n d a c = Inr (im, build_prompt n d a c)"
    using 0 generate_success [of backend calls n d a c im] by simp
  then show ?case using k by simp
next
  case (Suc j)
  then obtain k' where k: "k = Suc k'" and jk: "j < k'" by (cases k) auto
  have first: "backend calls (build_prompt n d a c) = Inl (err 0)"
    using Suc.prems by force
  have rest: "\<forall>i<j. backend (Suc calls + i) (build_prompt n d a c) = Inl (err (Suc i))"
    using Suc.prems by force
  have succ: "backend (Suc calls + j) (build_prompt n d a c) = Inr im"
    using Suc.prems by simp
  have "retry_loop backend n d a c k' 
          (Some (Exception (''Failed to generate image for '' @ n @ '': '' @ str_error (err 0))))
          (Suc calls)
        = (Inr (im, build_prompt n d a c), Suc (Suc calls + j))"
    using Suc.IH [of "Suc calls" "\<lambda>i. err (Suc i)" k'
                     "Some (Exception (''Failed to generate image for '' @ n @ '': ''
                                       @ str_error (err 0)))"] rest jk succ
    by simp
  then show ?case using k first by (simp add: generate_def)
qed

lemma gwr_all_fail:
  "0 < m \<Longrightarrow> \<forall>i<nat m. backend (calls + i) (build_prompt n d a c) = Inl (err i) \<Longrightarrow>
   generate_with_retry backend n d a c m calls
     = (Inl (Exception (''Failed after '' @ str_int m @ '' attempts: ''
               @ ''Failed to generate image for '' @ n @ '': '' @ str_error (err (nat m - 1)))),
        calls + nat m)"
proof -
  assume m: "0 < m" and f: "\<forall>i<nat m. backend (calls + i) (build_prompt n d a c) = Inl (err i)"
  have "nat m \<noteq> 0" using m by simp
  then show ?thesis
    using retry_loop_all_fail [of "nat m" backend calls n d a c err None] f
    by (simp add: generate_with_retry_def str_last_error_def)
qed

lemma gwr_first_success:
  "\<forall>i<j. backend (calls + i) (build_prompt n d a c) = Inl (err i) \<Longrightarrow>
   j < nat m \<Longrightarrow> backend (calls + j) (build_prompt n d a c) = Inr im \<Longrightarrow>
   generate_with_retry backend n d a c m calls = (Inr (im, build_prompt n d a c), Suc (calls + j))"
  using retry_loop_first_success [of j backend calls n d a c err "nat m" im None]
  by (simp add: generate_with_retry_def)

lemma gwr_calls:
  "calls \<le> snd (generate_with_retry backend n d a c m calls)
   \<and> snd (generate_with_retry backend n d a c m calls) \<le> calls + nat m"
proof (cases "retry_loop backend n d a c (nat m) None calls")
  case (Pair res calls')
  then show ?thesis
    using retry_loop_calls [of calls backend n d a c "nat m" None]
    by (cases res) (simp_all add: generate_with_retry_def)
qed

lemma gwr_success_prompt:
  "generate_with_retry backend n d a c m calls = (Inr (im, prompt), calls') \<Longrightarrow>
   prompt = build_prompt n d a c"
proof -
  assume h: "generate_with_retry backend n d a c m calls = (Inr (im, prompt), calls')"
  have loop: "\<And>k le calls r calls'. retry_loop backend n d a c k le calls = (Inr r, calls')
                \<Longrightarrow> snd r = build_prompt n d a c"
  proof -
    fix k le calls r calls'
    show "retry_loop backend n d a c k le calls = (Inr r, calls') \<Longrightarrow> snd r = build_prompt n d a c"
    proof (induction k arbitrary: le calls)
      case 0
      then show ?case by simp
    next
      case (Suc k)
      show ?case
      proof (cases "backend calls (build_prompt n d a c)")
        case (Inl e)
        then show ?thesis using Suc by (simp add: generate_def)
      next
        case (Inr im')
        then show ?thesis using Suc.prems by (auto simp: generate_def)
      qed
    qed
  qed
  show ?thesis
    using h loop [of "nat m" None calls "(im, prompt)" calls']
    by (auto simp: generate_with_retry_def split: prod.splits sum.splits)
qed

text \<open>
  C3. \<open>generate_with_retry\<close> calls the backend at most \<open>max_retries\<close> times. Whatever the
  errors are, it goes on to the next attempt: if the first \<open>j\<close> attempts fail and attempt
  \<open>j + 1\<close> (still within \<open>max_retries\<close>) succeeds, it returns that image and the prompt
  after exactly \<open>j + 1\<close> calls. If all of \<open>max_retries \<ge> 1\<close> attempts fail, it has made
  exactly \<open>max_retries\<close> calls and raises "Failed after \<open>max_retries\<close> attempts: Failed to
  generate image for \<open>product\<close>: \<open>last error\<close>", with no image in the result. In the
  orchestrator (three attempts) a product without an existing hero image whose generation
  fails three times ends the product's processing with that error, and neither an output
  file nor an asset record has been added for it.
\<close>

theorem generate_with_retry_bounded:
  "calls \<le> snd (generate_with_retry backend n d a c m calls)
   \<and> snd (generate_with_retry backend n d a c m calls) \<le> calls + nat m
   \<and> (0 < m \<and> (\<forall>i<nat m. backend (calls + i) (build_prompt n d a c) = Inl (err i)) \<longrightarrow>
        generate_with_retry backend n d a c m calls
          = (Inl (Exception (''Failed after '' @ str_int m @ '' attempts: ''
                    @ ''Failed to generate image for '' @ n @ '': ''
                    @ str_error (err (nat m - 1)))),
             calls + nat m))
   \<and> (j < nat m \<and> (\<forall>i<j. backend (calls + i) (build_prompt n d a c) = Inl (err i))
        \<and> backend (calls + j) (build_prompt n d a c) = Inr im \<longrightarrow>
        generate_with_retry backend n d a c m calls
          = (Inr (im, build_prompt n d a c), Suc (calls + j)))
   \<and> (find_asset (campaign_path env) (path_exists env (saved st)) (p_hero_image p) = None
        \<and> (\<forall>i<3. image_backend env (api_calls st + i)
                      (build_prompt (p_name p) (p_description p) (target_audience brief)
                         (brief_color brief)) = Inl (err i)) \<longrightarrow>
        fst (process_product env cfg brief p st)
          = Some (Exception (''Failed after 3 attempts: Failed to generate image for ''
                              @ p_name p @ '': '' @ str_error (err 2)))
        \<and> saved (snd (process_product env cfg brief p st)) = saved st
        \<and> generated_assets (snd (process_product env cfg brief p st)) = generated_assets st
        \<and> api_calls (snd (process_product env cfg brief p st)) = api_calls st + 3)"
  (is "?A \<and> ?B \<and> ?C \<and> ?D \<and> ?E")
proof -
  have ab: "?A \<and> ?B" using gwr_calls [of calls backend n d a c m] by simp
  have c: ?C using gwr_all_fail [of m backend calls n d a c err] by blast
  have d: ?D using gwr_first_success [of j backend calls n d a c err m im] by blast
  have e: ?E
  proof
    assume h: "find_asset (campaign_path env) (path_exists env (saved st)) (p_hero_image p) = None
        \<and> (\<forall>i<3. image_backend env (api_calls st + i)
                      (build_prompt (p_name p) (p_description p) (target_audience brief)
                         (brief_color brief)) = Inl (err i))"
    have three: "nat default_max_retries = 3" "0 < default_max_retries"
      "str_int default_max_retries = ''3''"
      by (simp_all add: default_max_retries_def str_int_3)
    have "generate_with_retry (image_backend env) (p_name p) (p_description p)
            (target_audience brief) (brief_color brief) default_max_retries (api_calls st)
          = (Inl (Exception (''Failed after '' @ str_int default_max_retries @ '' attempts: ''
                    @ ''Failed to generate image for '' @ p_name p @ '': ''
                    @ str_error (err (nat default_max_retries - 1)))),
             api_calls st + nat default_max_retries)"
      using gwr_all_fail [of default_max_retries "image_backend env" "api_calls st" "p_name p"
          "p_description p" "target_audience brief" "brief_color brief" err] h three
      by simp
    then show "fst (process_product env cfg brief p st)
          = Some (Exception (''Failed after 3 attempts: Failed to generate image for ''
                              @ p_name p @ '': '' @ str_error (err 2)))
        \<and> saved (snd (process_product env cfg brief p st)) = saved st
        \<and> generated_assets (snd (process_product env cfg brief p st)) = generated_assets st
        \<and> api_calls (snd (process_product env cfg brief p st)) = api_calls st + 3"
      using h three by (simp add: process_product_def)
  qed
  from ab c d e show ?thesis by blast
qed

subsection \<open>The loops of a run\<close>

lemma new_pipeline_fields:
  "saved new_pipeline = []" "api_calls new_pipeline = 0"
  "generated_assets new_pipeline = []" "compliance_results new_pipeline = []"
  by (simp_all add: new_pipeline_def)

lemma process_ratio_done:
  assumes "process_ratio env cfg brief p hero src prm r st = (None, st')"
  shows "generated_assets st' = generated_assets st
           @ [asset_record p r (output_file (campaign_path env) (p_id p) (r_name r)) src prm]"
    and "map fst (saved st') = map fst (saved st)
           @ [output_file (campaign_path env) (p_id p) (r_name r)]"
    and "map ce_product_id (compliance_results st') = map ce_product_id (compliance_results st)
           @ replicate (square_count [r]) (p_id p)"
    and "api_calls st' = api_calls st"
  using assms
  by (auto simp: process_ratio_def save_output_def Let_def square_count_def compliance_entry_def
      split: sum.splits option.splits prod.splits if_splits)

lemma process_ratio_completes_iff:
  "fst (process_ratio env cfg brief p hero src prm r st) = None \<longleftrightarrow>
   (\<exists>resized with_text final rel.
      resize_for_aspect_ratio env hero (width r) (height r) = Inr resized
      \<and> add_text_overlay env resized (campaign_message brief) (text_overlay cfg) = Inr with_text
      \<and> apply_logo env st brief with_text = Inr final
      \<and> image_save env (saved st) final (output_file (campaign_path env) (p_id p) (r_name r)) = None
      \<and> relative_to (output_file (campaign_path env) (p_id p) (r_name r)) (campaign_path env)
            = Inr rel)"
  by (auto simp: process_ratio_def save_output_def Let_def
      split: sum.splits option.splits prod.splits)

lemma process_ratios_done:
  "process_ratios env cfg brief p hero src prm rs st = (None, st') \<Longrightarrow>
   generated_assets st' = generated_assets st @ product_block (campaign_path env) rs p (src, prm)
   \<and> map fst (saved st') = map fst (saved st)
         @ map (\<lambda>r. output_file (campaign_path env) (p_id p) (r_name r)) rs
   \<and> map ce_product_id (compliance_results st') = map ce_product_id (compliance_results st)
         @ replicate (square_count rs) (p_id p)
   \<and> api_calls st' = api_calls st"
proof (induction rs arbitrary: st)
  case Nil
  then show ?case by (simp add: product_block_def square_count_def)
next
  case (Cons r rs)
  from Cons.prems obtain st1 where
    one: "process_ratio env cfg brief p hero src prm r st = (None, st1)" and
    rest: "process_ratios env cfg brief p hero src prm rs st1 = (None, st')"
    by (auto split: prod.splits option.splits)
  have sq: "square_count (r # rs) = square_count [r] + square_count rs"
    by (simp add: square_count_def)
  show ?case
    using process_ratio_done [OF one] Cons.IH [OF rest]
    by (simp add: product_block_def sq replicate_add)
qed

lemma process_product_done:
  assumes "process_product env cfg brief p st = (None, st')"
  shows "generated_assets st' = generated_assets st
           @ product_block (campaign_path env) (aspect_ratios cfg) p (chosen_source env brief st p)
   \<and> map fst (saved st') = map fst (saved st)
         @ map (\<lambda>r. output_file (campaign_path env) (p_id p) (r_name r)) (aspect_ratios cfg)
   \<and> map ce_product_id (compliance_results st') = map ce_product_id (compliance_results st)
         @ replicate (square_count (aspect_ratios cfg)) (p_id p)"
proof (cases "find_asset (campaign_path env) (path_exists env (saved st)) (p_hero_image p)")
  case (Some hp)
  with assms obtain hero where
    "process_ratios env cfg brief p hero ''existing'' None (aspect_ratios cfg) st = (None, st')"
    by (auto simp: process_product_def split: sum.splits)
  from process_ratios_done [OF this] show ?thesis
    using Some by (simp add: chosen_source_def)
next
  case None
  with assms obtain hero prompt calls where
    g: "generate_with_retry (image_backend env) (p_name p) (p_description p)
          (target_audience brief) (brief_color brief) default_max_retries (api_calls st)
        = (Inr (hero, prompt), calls)" and
    r: "process_ratios env cfg brief p hero ''generated'' (Some prompt) (aspect_ratios cfg)
          (st\<lparr>api_calls := calls\<rparr>) = (None, st')"
    by (auto simp: process_product_def split: sum.splits prod.splits)
  have "prompt = build_prompt (p_name p) (p_description p) (target_audience brief) (brief_color brief)"
    using gwr_success_prompt [OF g] .
  with process_ratios_done [OF r] show ?thesis
    using None by (simp add: chosen_source_def)
qed

lemma chosen_source_ok: "source_ok brief p (chosen_source env brief st p)"
  by (simp add: source_ok_def chosen_source_def split: option.splits)

lemma process_products_done:
  "process_products env cfg brief ps st = (None, st') \<Longrightarrow>
   (\<exists>sps. list_all2 (source_ok brief) ps sps
      \<and> generated_assets st' = generated_assets st
           @ concat (map2 (product_block (campaign_path env) (aspect_ratios cfg)) ps sps))
   \<and> map fst (saved st') = map fst (saved st)
         @ concat (map (\<lambda>p. map (\<lambda>r. output_file (campaign_path env) (p_id p) (r_name r))
                              (aspect_ratios cfg)) ps)
   \<and> map ce_product_id (compliance_results st') = map ce_product_id (compliance_results st)
         @ concat (map (\<lambda>p. replicate (square_count (aspect_ratios cfg)) (p_id p)) ps)"
proof (induction ps arbitrary: st)
  case Nil
  then show ?case by simp
next
  case (Cons p ps)
  from Cons.prems obtain st1 where
    one: "process_product env cfg brief p st = (None, st1)" and
    rest: "process_products env cfg brief ps st1 = (None, st')"
    by (auto split: prod.splits option.splits)
  from Cons.IH [OF rest] obtain sps where
    sps: "list_all2 (source_ok brief) ps sps" and
    as: "generated_assets st' = generated_assets st1
           @ concat (map2 (product_block (campaign_path env) (aspect_ratios cfg)) ps sps)"
    by blast
  let ?sp = "chosen_source env brief st p"
  have "list_all2 (source_ok brief) (p # ps) (?sp # sps)"
    using sps chosen_source_ok [of brief p env st] by simp
  moreover have "generated_assets st' = generated_assets st
           @ concat (map2 (product_block (campaign_path env) (aspect_ratios cfg)) (p # ps) (?sp # sps))"
    using as process_product_done [OF one] by simp
  ultimately have ex: "\<exists>sps. list_all2 (source_ok brief) (p # ps) sps
      \<and> generated_assets st' = generated_assets st
           @ concat (map2 (product_block (campaign_path env) (aspect_ratios cfg)) (p # ps) sps)"
    by blast
  show ?case
    using ex process_product_done [OF one] Cons.IH [OF rest] by simp
qed

lemma localize_keeps:
  "products (localize env b) = products b"
  "target_audience (localize env b) = target_audience b"
  "brief_color (localize env b) = brief_color b"
  "brief_logo (localize env b) = brief_logo b"
  "campaign_id (localize env b) = campaign_id b"
  "target_market (localize env b) = target_market b"
  by (simp_all add: localize_def Let_def brief_color_def brief_logo_def split: option.splits)

lemma source_ok_localize: "source_ok (localize env b) = source_ok b"
  by (rule ext, rule ext) (simp add: source_ok_def localize_keeps)

lemma run_done:
  assumes "run env cfg fn st = (Inr report, st')"
      and "read_brief env (path_div (campaign_path env) fn) = Inr b0"
  shows "fst (validate_brief b0)"
    and "process_products env cfg (localize env b0) (products b0) st = (None, st')"
    and "report = generate_report env (localize env b0) (campaign_message b0) st'"
  using assms
  by (auto simp: run_def run_from_localization_def Let_def localize_keeps
      split: sum.splits if_splits option.splits prod.splits)

lemma block_keys:
  "map (\<lambda>a. (product_id a, aspect_ratio a)) (product_block root rs p sp)
     = map (\<lambda>r. (p_id p, r_name r)) rs"
  "map file_path (product_block root rs p sp)
     = map (\<lambda>r. str_path (output_file root (p_id p) (r_name r))) rs"
  by (simp_all add: product_block_def asset_record_def)

lemma blocks_keys:
  "length ps = length sps \<Longrightarrow>
   map (\<lambda>a. (product_id a, aspect_ratio a)) (concat (map2 (product_block root rs) ps sps))
     = concat (map (\<lambda>p. map (\<lambda>r. (p_id p, r_name r)) rs) ps)
   \<and> map file_path (concat (map2 (product_block root rs) ps sps))
     = concat (map (\<lambda>p. map (\<lambda>r. str_path (output_file root (p_id p) (r_name r))) rs) ps)"
  by (induction ps sps rule: list_induct2) (simp_all add: block_keys)

lemma block_fields:
  "a \<in> set (product_block root rs p sp) \<Longrightarrow>
   product_id a = p_id p \<and> source a = fst sp \<and> prompt_used a = snd sp"
  by (auto simp: product_block_def asset_record_def)

lemma find_block:
  "rs \<noteq> [] \<Longrightarrow>
   \<exists>a. find (\<lambda>a. product_id a = p_id p) (product_block root rs p sp) = Some a
        \<and> source a = fst sp \<and> prompt_used a = snd sp"
  by (cases rs) (simp_all add: product_block_def asset_record_def)

lemma in_blocks:
  "length ps = length sps \<Longrightarrow>
   a \<in> set (concat (map2 (product_block root rs) ps sps)) \<Longrightarrow>
   \<exists>p sp. (p, sp) \<in> set (zip ps sps) \<and> a \<in> set (product_block root rs p sp)"
  by (induction ps sps rule: list_induct2) auto

lemma in_blocksI:
  "(p, sp) \<in> set (zip ps sps) \<Longrightarrow> a \<in> set (product_block root rs p sp) \<Longrightarrow>
   a \<in> set (concat (map2 (product_block root rs) ps sps))"
  unfolding set_concat set_map by (rule UN_I [of "product_block root rs p sp"]) auto

lemma case_filter_find:
  "(case filter P xs of [] \<Rightarrow> d | a # as \<Rightarrow> g a) = (case find P xs of None \<Rightarrow> d | Some a \<Rightarrow> g a)"
  by (induction xs) simp_all

lemma product_report_first:
  "pr_source (product_report st p)
     = (case find (\<lambda>a. product_id a = p_id p) (generated_assets st) of
          None \<Rightarrow> ''unknown'' | Some a \<Rightarrow> source a)"
  "pr_prompt_used (product_report st p)
     = (case find (\<lambda>a. product_id a = p_id p) (generated_assets st) of
          None \<Rightarrow> None | Some a \<Rightarrow> prompt_used a)"
  by (simp_all add: product_report_def Let_def case_filter_find)

lemma find_append:
  "find P (xs @ ys) = (case find P xs of None \<Rightarrow> find P ys | Some a \<Rightarrow> Some a)"
  by (induction xs) simp_all

lemma reported_sources:
  "length ps = length sps \<Longrightarrow> distinct (map p_id ps) \<Longrightarrow> rs \<noteq> [] \<Longrightarrow>
   \<forall>a \<in> set pre. product_id a \<notin> set (map p_id ps) \<Longrightarrow>
   generated_assets st = pre @ concat (map2 (product_block root rs) ps sps) \<Longrightarrow>
   map (\<lambda>p. (pr_source (product_report st p), pr_prompt_used (product_report st p))) ps = sps"
proof (induction ps sps arbitrary: pre rule: list_induct2)
  case Nil
  then show ?case by simp
next
  case (Cons p ps sp sps)
  have nopre: "find (\<lambda>a. product_id a = p_id p) pre = None"
    using Cons.prems(3) by (auto simp: find_None_iff)
  from find_block [OF Cons.prems(2), of p root sp] obtain a where
    a: "find (\<lambda>a. product_id a = p_id p) (product_block root rs p sp) = Some a"
       "source a = fst sp" "prompt_used a = snd sp" by blast
  have first: "find (\<lambda>a. product_id a = p_id p) (generated_assets st) = Some a"
    using Cons.prems(4) nopre a(1) by (simp add: find_append)
  have head: "(pr_source (product_report st p), pr_prompt_used (product_report st p)) = sp"
    using first a by (simp add: product_report_first)
  have pre': "\<forall>a \<in> set (pre @ product_block root rs p sp). product_id a \<notin> set (map p_id ps)"
    using Cons.prems(1,3) by (auto dest: block_fields)
  have "map (\<lambda>p. (pr_source (product_report st p), pr_prompt_used (product_report st p))) ps = sps"
    using Cons.IH [of "pre @ product_block root rs p sp"] Cons.prems pre' by simp
  with head show ?case by simp
qed

lemma xor_filter_length:
  "\<forall>a \<in> set xs. P a \<noteq> Q a \<Longrightarrow> length (filter P xs) + length (filter Q xs) = length xs"
  by (induction xs) auto

lemma zip_functional:
  "length ps = length sps \<Longrightarrow> distinct (map k ps) \<Longrightarrow>
   (p, x) \<in> set (zip ps sps) \<Longrightarrow> (p', y) \<in> set (zip ps sps) \<Longrightarrow> k p = k p' \<Longrightarrow> x = y"
proof (induction ps sps rule: list_induct2)
  case Nil
  then show ?case by simp
next
  case (Cons q ps s sps)
  have fresh: "k q \<notin> k ` set ps" and dist: "distinct (map k ps)"
    using Cons.prems(1) by simp_all
  from Cons.prems(2) have px: "(p, x) = (q, s) \<or> (p, x) \<in> set (zip ps sps)" by simp
  from Cons.prems(3) have py: "(p', y) = (q, s) \<or> (p', y) \<in> set (zip ps sps)" by simp
  show ?case
  proof (cases "(p, x) = (q, s)")
    case True
    show ?thesis
    proof (cases "(p', y) = (q, s)")
      case True
      with \<open>(p, x) = (q, s)\<close> show ?thesis by simp
    next
      case False
      with py have "p' \<in> set ps" by (auto dest: set_zip_leftD)
      then have "k p' \<in> k ` set ps" by (rule imageI)
      with fresh True Cons.prems(4) show ?thesis by auto
    qed
  next
    case False
    with px have in1: "(p, x) \<in> set (zip ps sps)" by blast
    then have "p \<in> set ps" by (rule set_zip_leftD)
    then have "k p \<in> k ` set ps" by (rule imageI)
    with fresh Cons.prems(4) have "(p', y) \<noteq> (q, s)" by auto
    with py have in2: "(p', y) \<in> set (zip ps sps)" by blast
    from Cons.IH [OF dist in1 in2 Cons.prems(4)] show ?thesis .
  qed
qed

lemma find_asset_falsy: "\<not> truthy h \<Longrightarrow> find_asset root ex h = None"
  by (cases h) (simp_all add: find_asset_def)

lemma build_prompt_nonempty: "build_prompt n d a c \<noteq> []"
  by (simp add: build_prompt_def prompt_parts_def framing_line_def)

subsection \<open>Independence from the compliance outcome\<close>

lemma process_ratio_sample_indep:
  assumes "same_outputs st st2"
  shows "fst (process_ratio (env\<lparr>sample_pixels := f\<rparr>) cfg brief p hero src prm r st2)
           = fst (process_ratio env cfg brief p hero src prm r st)
         \<and> same_outputs (snd (process_ratio env cfg brief p hero src prm r st))
              (snd (process_ratio (env\<lparr>sample_pixels := f\<rparr>) cfg brief p hero src prm r st2))"
  using assms
  by (auto simp: process_ratio_def save_output_def apply_logo_def Let_def same_outputs_def
      split: sum.splits option.splits prod.splits)

lemma process_ratios_sample_indep:
  "same_outputs st st2 \<Longrightarrow>
   fst (process_ratios (env\<lparr>sample_pixels := f\<rparr>) cfg brief p hero src prm rs st2)
     = fst (process_ratios env cfg brief p hero src prm rs st)
   \<and> same_outputs (snd (process_ratios env cfg brief p hero src prm rs st))
        (snd (process_ratios (env\<lparr>sample_pixels := f\<rparr>) cfg brief p hero src prm rs st2))"
proof (induction rs arbitrary: st st2)
  case Nil
  then show ?case by simp
next
  case (Cons r rs)
  obtain res st1 where one: "process_ratio env cfg brief p hero src prm r st = (res, st1)"
    by (cases "process_ratio env cfg brief p hero src prm r st")
  obtain res' st1' where
    one': "process_ratio (env\<lparr>sample_pixels := f\<rparr>) cfg brief p hero src prm r st2 = (res', st1')"
    by (cases "process_ratio (env\<lparr>sample_pixels := f\<rparr>) cfg brief p hero src prm r st2")
  have rel: "res' = res \<and> same_outputs st1 st1'"
    using process_ratio_sample_indep [OF Cons.prems, where env = env and f = f and cfg = cfg
          and brief = brief and p = p and hero = hero and src = src and prm = prm and r = r]
      one one' by simp
  show ?case
  proof (cases res)
    case None
    then show ?thesis using one one' rel Cons.IH [of st1 st1'] by simp
  next
    case (Some e)
    then show ?thesis using one one' rel by simp
  qed
qed

lemma load_image_sample_indep:
  "same_outputs st st2 \<Longrightarrow>
   load_image (env\<lparr>sample_pixels := f\<rparr>) st2 hp = load_image env st hp"
  by (simp add: load_image_def same_outputs_def)

lemma process_product_sample_indep:
  assumes so: "same_outputs st st2"
  shows "fst (process_product (env\<lparr>sample_pixels := f\<rparr>) cfg brief p st2)
           = fst (process_product env cfg brief p st)
         \<and> same_outputs (snd (process_product env cfg brief p st))
              (snd (process_product (env\<lparr>sample_pixels := f\<rparr>) cfg brief p st2))"
proof (cases "find_asset (campaign_path env) (path_exists env (saved st)) (p_hero_image p)")
  case (Some hp)
  then have fa: "find_asset (campaign_path (env\<lparr>sample_pixels := f\<rparr>))
                   (path_exists (env\<lparr>sample_pixels := f\<rparr>) (saved st2)) (p_hero_image p) = Some hp"
    using so by (simp add: same_outputs_def)
  show ?thesis
  proof (cases "load_image env st hp")
    case (Inl e)
    then show ?thesis
      using Some fa so load_image_sample_indep [OF so, where env = env and f = f and hp = hp]
      by (simp add: process_product_def)
  next
    case (Inr hero)
    then show ?thesis
      using Some fa load_image_sample_indep [OF so, where env = env and f = f and hp = hp]
        process_ratios_sample_indep [OF so, where env = env and f = f and cfg = cfg
            and brief = brief and p = p and hero = hero and src = "''existing''" and prm = None
            and rs = "aspect_ratios cfg"]
      by (simp add: process_product_def)
  qed
next
  case None
  then have fa: "find_asset (campaign_path (env\<lparr>sample_pixels := f\<rparr>))
                   (path_exists (env\<lparr>sample_pixels := f\<rparr>) (saved st2)) (p_hero_image p) = None"
    using so by (simp add: same_outputs_def)
  have calls: "api_calls st2 = api_calls st" using so by (simp add: same_outputs_def)
  obtain res n where g: "generate_with_retry (image_backend env) (p_name p) (p_description p)
          (target_audience brief) (brief_color brief) default_max_retries (api_calls st) = (res, n)"
    by (cases "generate_with_retry (image_backend env) (p_name p) (p_description p)
          (target_audience brief) (brief_color brief) default_max_retries (api_calls st)")
  have so': "same_outputs (st\<lparr>api_calls := n\<rparr>) (st2\<lparr>api_calls := n\<rparr>)"
    using so by (simp add: same_outputs_def)
  show ?thesis
  proof (cases res)
    case (Inl e)
    then show ?thesis using None fa g calls so' by (simp add: process_product_def)
  next
    case (Inr hp)
    obtain hero prompt where hp: "hp = (hero, prompt)" by (cases hp)
    show ?thesis
      using None fa g calls Inr hp
        process_ratios_sample_indep [OF so', where env = env and f = f and cfg = cfg
            and brief = brief and p = p and hero = hero and src = "''generated''"
            and prm = "Some prompt" and rs = "aspect_ratios cfg"]
      by (simp add: process_product_def)
  qed
qed

lemma process_products_sample_indep:
  "same_outputs st st2 \<Longrightarrow>
   fst (process_products (env\<lparr>sample_pixels := f\<rparr>) cfg brief ps st2)
     = fst (process_products env cfg brief ps st)
   \<and> same_outputs (snd (process_products env cfg brief ps st))
        (snd (process_products (env\<lparr>sample_pixels := f\<rparr>) cfg brief ps st2))"
proof (induction ps arbitrary: st st2)
  case Nil
  then show ?case by simp
next
  case (Cons p ps)
  obtain res st1 where one: "process_product env cfg brief p st = (res, st1)"
    by (cases "process_product env cfg brief p st")
  obtain res' st1' where
    one': "process_product (env\<lparr>sample_pixels := f\<rparr>) cfg brief p st2 = (res', st1')"
    by (cases "process_product (env\<lparr>sample_pixels := f\<rparr>) cfg brief p st2")
  have rel: "res' = res \<and> same_outputs st1 st1'"
    using process_product_sample_indep [OF Cons.prems, where env = env and f = f and cfg = cfg
          and brief = brief and p = p] one one' by simp
  show ?case
  proof (cases res)
    case None
    then show ?thesis using one one' rel Cons.IH [of st1 st1'] by simp
  next
    case (Some e)
    then show ?thesis using one one' rel by simp
  qed
qed

lemma localize_sample_indep: "localize (env\<lparr>sample_pixels := f\<rparr>) b = localize env b"
  by (simp add: localize_def)

lemma run_sample_indep:
  assumes "run env cfg fn st = (Inr report, st')"
  shows "\<exists>report2 st2. run (env\<lparr>sample_pixels := f\<rparr>) cfg fn st = (Inr report2, st2)
           \<and> same_outputs st' st2"
proof -
  from assms obtain b0 where rb: "read_brief env (path_div (campaign_path env) fn) = Inr b0"
    by (auto simp: run_def split: sum.splits)
  note d = run_done [OF assms rb]
  have dump: "report_dump env (saved st') (report_path (campaign_path env)) = None"
    and rel: "\<exists>x. relative_to (report_path (campaign_path env)) (campaign_path env) = Inr x"
    using assms rb d
    by (auto simp: run_def run_from_localization_def Let_def localize_keeps
        split: sum.splits if_splits option.splits prod.splits)
  have so: "same_outputs st st" by (simp add: same_outputs_def)
  obtain res st2 where
    pp: "process_products (env\<lparr>sample_pixels := f\<rparr>) cfg (localize env b0) (products b0) st = (res, st2)"
    by (cases "process_products (env\<lparr>sample_pixels := f\<rparr>) cfg (localize env b0) (products b0) st")
  have r: "res = None \<and> same_outputs st' st2"
    using process_products_sample_indep [OF so, where env = env and f = f and cfg = cfg
          and brief = "localize env b0" and ps = "products b0"] pp d(2)
    by simp
  then have sv: "saved st2 = saved st'" by (simp add: same_outputs_def)
  have mod: "moderate_campaign_message (moderator_terms None) (campaign_message b0) False
               = Inr (is_safe (moderate_text (moderator_terms None) (campaign_message b0)))"
    by (simp add: moderate_campaign_message_def Let_def)
  show ?thesis
    using rb d(1) pp r sv dump rel mod
    by (auto simp: run_def run_from_localization_def Let_def localize_keeps localize_sample_indep)
qed

subsection \<open>The example campaign runs to completion\<close>

lemma acme_read: "read_brief acme_env (path_div (campaign_path acme_env) ''brief.yaml'') = Inr acme_brief"
  by (simp add: acme_env_def)

lemma acme_completes: "\<not> isl (fst (run acme_env load_config ''brief.yaml'' new_pipeline))"
  by code_simp

lemma acme_run:
  "run acme_env load_config ''brief.yaml'' new_pipeline
     = (Inr (projr (fst (run acme_env load_config ''brief.yaml'' new_pipeline))),
        snd (run acme_env load_config ''brief.yaml'' new_pipeline))"
  using acme_completes by (metis sum.collapse(2) prod.collapse)

lemma no_square_completes: "\<not> isl (fst (run acme_env no_square_config ''brief.yaml'' new_pipeline))"
  by code_simp

lemma no_square_run:
  "run acme_env no_square_config ''brief.yaml'' new_pipeline
     = (Inr (projr (fst (run acme_env no_square_config ''brief.yaml'' new_pipeline))),
        snd (run acme_env no_square_config ''brief.yaml'' new_pipeline))"
  using no_square_completes by (metis sum.collapse(2) prod.collapse)

theorem generate_with_retry_bounded_witness:
  "(0::int) < 3
   \<and> failing_backend 0
         (build_prompt ''Acme Soap'' ''Handmade soap bar'' ''young professionals'' (Some ''#FF0000''))
       = Inl (Exception ''rate limit'')
   \<and> failing_backend 1
         (build_prompt ''Acme Soap'' ''Handmade soap bar'' ''young professionals'' (Some ''#FF0000''))
       = Inl (Exception ''rate limit'')
   \<and> failing_backend 2
         (build_prompt ''Acme Soap'' ''Handmade soap bar'' ''young professionals'' (Some ''#FF0000''))
       = Inl (Exception ''rate limit'')
   \<and> generate_with_retry failing_backend ''Acme Soap'' ''Handmade soap bar'' ''young professionals''
        (Some ''#FF0000'') 3 0
       = (Inl (Exception ''Failed after 3 attempts: Failed to generate image for Acme Soap: rate limit''),
          3)
   \<and> (1::nat) < nat 3
   \<and> generate_with_retry (\<lambda>k prompt. if k = 1 then Inr [Bands [1, 2, 3]] else Inl (ValueError ''busy''))
        ''Acme Soap'' ''Handmade soap bar'' ''young professionals'' (Some ''#FF0000'') 3 0
       = (Inr ([Bands [1, 2, 3]],
               build_prompt ''Acme Soap'' ''Handmade soap bar'' ''young professionals''
                 (Some ''#FF0000'')), 2)
   \<and> find_asset (campaign_path failing_env) (path_exists failing_env (saved new_pipeline))
        (p_hero_image soap) = None
   \<and> fst (process_product failing_env load_config acme_brief soap new_pipeline)
       = Some (Exception ''Failed after 3 attempts: Failed to generate image for Acme Soap: rate limit'')
   \<and> saved (snd (process_product failing_env load_config acme_brief soap new_pipeline)) = []
   \<and> fst (run failing_env load_config ''brief.yaml'' new_pipeline)
       = Inl (Exception ''Failed after 3 attempts: Failed to generate image for Acme Soap: rate limit'')
   \<and> map fst (saved (snd (run failing_env load_config ''brief.yaml'' new_pipeline)))
       = [output_file acme_root ''shampoo'' ''square'',
          output_file acme_root ''shampoo'' ''story'',
          output_file acme_root ''shampoo'' ''landscape'']"
proof -
  have all_fail: "\<forall>i<nat 3. failing_backend (0 + i)
          (build_prompt ''Acme Soap'' ''Handmade soap bar'' ''young professionals'' (Some ''#FF0000''))
        = Inl (Exception ''rate limit'')"
    by (simp add: failing_backend_def)
  have fa: "find_asset (campaign_path failing_env) (path_exists failing_env (saved new_pipeline))
        (p_hero_image soap) = None"
    by (simp add: find_asset_def soap_def)
  have pipe_fail: "\<forall>i<3. image_backend failing_env (api_calls new_pipeline + i)
        (build_prompt (p_name soap) (p_description soap) (target_audience acme_brief)
           (brief_color acme_brief)) = Inl (Exception ''rate limit'')"
    by (simp add: failing_env_def failing_backend_def)
  have run_fail: "fst (run failing_env load_config ''brief.yaml'' new_pipeline)
       = Inl (Exception ''Failed after 3 attempts: Failed to generate image for Acme Soap: rate limit'')"
    by code_simp
  have run_saved: "map fst (saved (snd (run failing_env load_config ''brief.yaml'' new_pipeline)))
       = [output_file acme_root ''shampoo'' ''square'',
          output_file acme_root ''shampoo'' ''story'',
          output_file acme_root ''shampoo'' ''landscape'']"
    by code_simp
  show ?thesis
    using generate_with_retry_bounded [of 0 failing_backend "''Acme Soap''" "''Handmade soap bar''"
                 "''young professionals''" "Some ''#FF0000''" 3 "\<lambda>i. Exception ''rate limit''"
                 0 "[]" failing_env new_pipeline soap acme_brief load_config]
          generate_with_retry_bounded [of 0 "\<lambda>k prompt. if k = 1 then Inr [Bands [1, 2, 3]] else Inl (ValueError ''busy'')"
                 "''Acme Soap''" "''Handmade soap bar''"
                 "''young professionals''" "Some ''#FF0000''" 3 "\<lambda>i. ValueError ''busy''"
                 1 "[Bands [1, 2, 3]]" failing_env new_pipeline soap acme_brief load_config]
          all_fail fa pipe_fail run_fail run_saved
    by (simp add: str_int_3 soap_def new_pipeline_fields failing_backend_def)
qed

subsection \<open>Claims about a whole run\<close>

text \<open>
  C1. Take a brief with exactly two products, the first with a hero image that
  \<open>find_asset\<close> resolves when the run starts, the second with no hero image, and the
  default configuration (square, story, landscape), in any language. A completed run of a
  fresh pipeline has exactly six asset records, in this order: three with source
  \<open>existing\<close> and no prompt for the first product, then three with source \<open>generated\<close> and
  the (non-empty) prompt built for the second, each triple in the order square, story,
  landscape. There is one compliance result per product, in brief order. The report's
  statistics are 2 products, 6 assets, 3 generated and 3 reused, and its products are in
  brief order. When the two product ids differ (the data model makes the id a unique key;
  the report groups records by id), each product's variants are square, story, landscape
  and its source and prompt are its own.
\<close>

theorem run_two_products_six_assets:
  assumes run: "run env load_config fn new_pipeline = (Inr report, st')"
      and rb: "read_brief env (path_div (campaign_path env) fn) = Inr brief0"
      and two: "products brief0 = [pa, pb]"
      and hero_a: "find_asset (campaign_path env) (path_exists env []) (p_hero_image pa) = Some hp"
      and hero_b: "\<not> truthy (p_hero_image pb)"
  shows "map (\<lambda>a. (product_id a, aspect_ratio a, source a, prompt_used a)) (generated_assets st')
           = [(p_id pa, ''square'', ''existing'', None),
              (p_id pa, ''story'', ''existing'', None),
              (p_id pa, ''landscape'', ''existing'', None),
              (p_id pb, ''square'', ''generated'',
                 Some (build_prompt (p_name pb) (p_description pb) (target_audience brief0)
                         (brief_color brief0))),
              (p_id pb, ''story'', ''generated'',
                 Some (build_prompt (p_name pb) (p_description pb) (target_audience brief0)
                         (brief_color brief0))),
              (p_id pb, ''landscape'', ''generated'',
                 Some (build_prompt (p_name pb) (p_description pb) (target_audience brief0)
                         (brief_color brief0)))]
    \<and> length (generated_assets st') = 6
    \<and> build_prompt (p_name pb) (p_description pb) (target_audience brief0) (brief_color brief0) \<noteq> []
    \<and> map ce_product_id (compliance_results st') = [p_id pa, p_id pb]
    \<and> total_products (statistics report) = 2
    \<and> total_assets (statistics report) = 6
    \<and> assets_generated (statistics report) = 3
    \<and> assets_reused (statistics report) = 3
    \<and> compliance_total (statistics report) = 2
    \<and> map pr_product_id (report_products report) = [p_id pa, p_id pb]
    \<and> (p_id pa \<noteq> p_id pb \<longrightarrow>
         map (\<lambda>pr. map v_aspect_ratio (variants pr)) (report_products report)
           = [[''square'', ''story'', ''landscape''], [''square'', ''story'', ''landscape'']]
         \<and> map (\<lambda>pr. (pr_source pr, pr_prompt_used pr)) (report_products report)
           = [(''existing'', None),
              (''generated'',
                 Some (build_prompt (p_name pb) (p_description pb) (target_audience brief0)
                         (brief_color brief0)))])"
  (is "?A \<and> ?B \<and> ?C \<and> ?D \<and> ?E \<and> ?F \<and> ?G \<and> ?H \<and> ?I \<and> ?J \<and> ?K")
proof -
  note d = run_done [OF run rb]
  let ?b = "localize env brief0"
  let ?prompt = "build_prompt (p_name pb) (p_description pb) (target_audience brief0)
                   (brief_color brief0)"
  from d(2) two obtain st1 where
    one: "process_product env load_config ?b pa new_pipeline = (None, st1)" and
    other: "process_product env load_config ?b pb st1 = (None, st')"
    by (auto split: prod.splits option.splits)
  have src_a: "chosen_source env ?b new_pipeline pa = (''existing'', None)"
    using hero_a by (simp add: chosen_source_def new_pipeline_fields)
  have src_b: "chosen_source env ?b st1 pb = (''generated'', Some ?prompt)"
    using find_asset_falsy [OF hero_b] by (simp add: chosen_source_def localize_keeps)
  have sq: "square_count (aspect_ratios load_config) = 1"
    by (simp add: square_count_def load_config_def)
  note da = process_product_done [OF one] and db = process_product_done [OF other]
  have assets: "generated_assets st'
      = product_block (campaign_path env) (aspect_ratios load_config) pa (''existing'', None)
        @ product_block (campaign_path env) (aspect_ratios load_config) pb (''generated'', Some ?prompt)"
    using da db src_a src_b by (simp add: new_pipeline_fields)
  have a: ?A
    by (simp add: assets product_block_def asset_record_def load_config_def)
  have b: ?B
    by (simp add: assets product_block_def load_config_def)
  have c: ?C by (rule build_prompt_nonempty)
  have dd: ?D using da db sq by (simp add: new_pipeline_fields)
  then have ncr: "length (compliance_results st') = 2"
    by (metis length_map length_Cons list.size(3) numeral_2_eq_2)
  have gen: "length (filter (\<lambda>a. source a = ''generated'') (generated_assets st')) = 3"
    and reu: "length (filter (\<lambda>a. source a = ''existing'') (generated_assets st')) = 3"
    by (simp_all add: assets product_block_def asset_record_def load_config_def)
  have e: ?E using d(3) two by (simp add: generate_report_def localize_keeps)
  have f: ?F using d(3) b by (simp add: generate_report_def)
  have g: ?G using d(3) gen by (simp add: generate_report_def)
  have h: ?H using d(3) reu by (simp add: generate_report_def)
  have i: ?I using d(3) ncr by (simp add: generate_report_def)
  have j: ?J using d(3) two
    by (simp add: generate_report_def localize_keeps product_report_def Let_def)
  have rp: "report_products report = [product_report st' pa, product_report st' pb]"
    using d(3) two by (simp add: generate_report_def localize_keeps)
  have k: ?K
  proof
    assume ne: "p_id pa \<noteq> p_id pb"
    then have ne': "p_id pb \<noteq> p_id pa" by simp
    have fa: "filter (\<lambda>a. product_id a = p_id pa) (generated_assets st')
        = product_block (campaign_path env) (aspect_ratios load_config) pa (''existing'', None)"
      using ne' by (simp add: assets product_block_def asset_record_def load_config_def)
    have fb: "filter (\<lambda>a. product_id a = p_id pb) (generated_assets st')
        = product_block (campaign_path env) (aspect_ratios load_config) pb
            (''generated'', Some ?prompt)"
      using ne by (simp add: assets product_block_def asset_record_def load_config_def)
    have va: "map v_aspect_ratio (variants (product_report st' pa))
                = [''square'', ''story'', ''landscape'']"
      and sa: "(pr_source (product_report st' pa), pr_prompt_used (product_report st' pa))
                = (''existing'', None)"
      by (simp_all add: product_report_def Let_def fa product_block_def asset_record_def
          load_config_def)
    have vb: "map v_aspect_ratio (variants (product_report st' pb))
                = [''square'', ''story'', ''landscape'']"
      and sb: "(pr_source (product_report st' pb), pr_prompt_used (product_report st' pb))
                = (''generated'', Some ?prompt)"
      by (simp_all add: product_report_def Let_def fb product_block_def asset_record_def
          load_config_def)
    show "map (\<lambda>pr. map v_aspect_ratio (variants pr)) (report_products report)
           = [[''square'', ''story'', ''landscape''], [''square'', ''story'', ''landscape'']]
         \<and> map (\<lambda>pr. (pr_source pr, pr_prompt_used pr)) (report_products report)
           = [(''existing'', None), (''generated'', Some ?prompt)]"
      using rp va vb sa sb by simp
  qed
  from a b c dd e f g h i j k show ?thesis by (intro conjI)
qed

theorem run_two_products_six_assets_witness:
  "\<not> isl (fst (run acme_env load_config ''brief.yaml'' new_pipeline))
   \<and> products acme_brief = [shampoo, soap]
   \<and> find_asset (campaign_path acme_env) (path_exists acme_env []) (p_hero_image shampoo)
       = Some (path_div (assets_dir acme_root) ''shampoo.png'')
   \<and> \<not> truthy (p_hero_image soap)
   \<and> p_id shampoo \<noteq> p_id soap
   \<and> length (generated_assets (snd (run acme_env load_config ''brief.yaml'' new_pipeline))) = 6
   \<and> map ce_product_id (compliance_results (snd (run acme_env load_config ''brief.yaml'' new_pipeline)))
       = [''shampoo'', ''soap'']
   \<and> total_assets (statistics (projr (fst (run acme_env load_config ''brief.yaml'' new_pipeline)))) = 6
   \<and> assets_generated (statistics (projr (fst (run acme_env load_config ''brief.yaml'' new_pipeline)))) = 3
   \<and> assets_reused (statistics (projr (fst (run acme_env load_config ''brief.yaml'' new_pipeline)))) = 3
   \<and> map (\<lambda>pr. map v_aspect_ratio (variants pr))
         (report_products (projr (fst (run acme_env load_config ''brief.yaml'' new_pipeline))))
       = [[''square'', ''story'', ''landscape''], [''square'', ''story'', ''landscape'']]"
proof -
  have two: "products acme_brief = [shampoo, soap]" by (simp add: acme_brief_def)
  have ha: "find_asset (campaign_path acme_env) (path_exists acme_env []) (p_hero_image shampoo)
       = Some (path_div (assets_dir acme_root) ''shampoo.png'')"
    by code_simp
  have hb: "\<not> truthy (p_hero_image soap)" by (simp add: soap_def)
  have ne: "p_id shampoo \<noteq> p_id soap" by (simp add: shampoo_def soap_def)
  from run_two_products_six_assets [OF acme_run acme_read two ha hb] ne
  show ?thesis using acme_completes two ha hb by (simp add: shampoo_def soap_def)
qed

text \<open>
  C2. In a completed run of a fresh pipeline, the compliance results are, product by
  product in brief order, one entry for every configured ratio named \<open>square\<close>: exactly one
  per product when the configuration has one such ratio (as the default has), and none at
  all when it has none, in which case the run still completes. Every (product, ratio)
  pair has exactly one asset record and one saved file, in processing order, and each
  record's path is the path of its file. The compliance outcome cannot change this: with
  any other result of sampling the image (including an error), the run still completes
  with the same asset records and the same saved files. A single pass of the ratio loop
  completes exactly when resizing, text overlay, logo overlay, saving and the relative path
  succeed, whatever the ratio is called.
\<close>

theorem compliance_once_per_product_never_blocks:
  assumes run: "run env cfg fn new_pipeline = (Inr report, st')"
      and rb: "read_brief env (path_div (campaign_path env) fn) = Inr brief0"
  shows "map ce_product_id (compliance_results st')
           = concat (map (\<lambda>p. replicate (square_count (aspect_ratios cfg)) (p_id p))
                         (products brief0))
    \<and> (square_count (aspect_ratios cfg) = 1 \<longrightarrow>
          map ce_product_id (compliance_results st') = map p_id (products brief0))
    \<and> (''square'' \<notin> set (map r_name (aspect_ratios cfg)) \<longrightarrow> compliance_results st' = [])
    \<and> map (\<lambda>a. (product_id a, aspect_ratio a)) (generated_assets st')
         = concat (map (\<lambda>p. map (\<lambda>r. (p_id p, r_name r)) (aspect_ratios cfg)) (products brief0))
    \<and> map fst (saved st')
         = concat (map (\<lambda>p. map (\<lambda>r. output_file (campaign_path env) (p_id p) (r_name r))
                              (aspect_ratios cfg)) (products brief0))
    \<and> map file_path (generated_assets st') = map (str_path \<circ> fst) (saved st')
    \<and> (\<exists>report2 st2. run (env\<lparr>sample_pixels := f\<rparr>) cfg fn new_pipeline = (Inr report2, st2)
          \<and> generated_assets st2 = generated_assets st' \<and> saved st2 = saved st')
    \<and> (fst (process_ratio env cfg brief p hero src prm r st) = None \<longleftrightarrow>
         (\<exists>resized with_text final rel.
            resize_for_aspect_ratio env hero (width r) (height r) = Inr resized
            \<and> add_text_overlay env resized (campaign_message brief) (text_overlay cfg)
                 = Inr with_text
            \<and> apply_logo env st brief with_text = Inr final
            \<and> image_save env (saved st) final
                 (output_file (campaign_path env) (p_id p) (r_name r)) = None
            \<and> relative_to (output_file (campaign_path env) (p_id p) (r_name r))
                 (campaign_path env) = Inr rel))"
proof -
  note d = run_done [OF run rb]
  from process_products_done [OF d(2)] obtain sps where
    sps: "list_all2 (source_ok (localize env brief0)) (products brief0) sps" and
    as: "generated_assets st'
           = concat (map2 (product_block (campaign_path env) (aspect_ratios cfg)) (products brief0) sps)" and
    sv: "map fst (saved st')
         = concat (map (\<lambda>p. map (\<lambda>r. output_file (campaign_path env) (p_id p) (r_name r))
                              (aspect_ratios cfg)) (products brief0))" and
    cr: "map ce_product_id (compliance_results st')
           = concat (map (\<lambda>p. replicate (square_count (aspect_ratios cfg)) (p_id p))
                         (products brief0))"
    by (auto simp: new_pipeline_fields)
  have len: "length (products brief0) = length sps"
    using sps by (rule list_all2_lengthD)
  have keys: "map (\<lambda>a. (product_id a, aspect_ratio a)) (generated_assets st')
         = concat (map (\<lambda>p. map (\<lambda>r. (p_id p, r_name r)) (aspect_ratios cfg)) (products brief0))"
    and paths: "map file_path (generated_assets st')
         = concat (map (\<lambda>p. map (\<lambda>r. str_path (output_file (campaign_path env) (p_id p) (r_name r)))
                              (aspect_ratios cfg)) (products brief0))"
    using blocks_keys [OF len, of "campaign_path env" "aspect_ratios cfg"] as by simp_all
  have once: "square_count (aspect_ratios cfg) = 1 \<longrightarrow>
          map ce_product_id (compliance_results st') = map p_id (products brief0)"
  proof
    assume one: "square_count (aspect_ratios cfg) = 1"
    have "concat (map (\<lambda>p. [p_id p]) ps) = map p_id ps" for ps :: "Product list"
      by (induction ps) simp_all
    then show "map ce_product_id (compliance_results st') = map p_id (products brief0)"
      using cr one by simp
  qed
  have none: "''square'' \<notin> set (map r_name (aspect_ratios cfg)) \<longrightarrow> compliance_results st' = []"
  proof
    assume "''square'' \<notin> set (map r_name (aspect_ratios cfg))"
    then have "filter (\<lambda>r. r_name r = ''square'') (aspect_ratios cfg) = []"
      unfolding filter_empty_conv set_map by (metis imageI)
    then have "square_count (aspect_ratios cfg) = 0" by (simp add: square_count_def)
    then have "map ce_product_id (compliance_results st') = []" using cr by simp
    then show "compliance_results st' = []" by simp
  qed
  have files: "map file_path (generated_assets st') = map (str_path \<circ> fst) (saved st')"
  proof -
    have "map (str_path \<circ> fst) (saved st') = map str_path (map fst (saved st'))" by simp
    also have "\<dots> = map file_path (generated_assets st')"
      unfolding sv paths by (simp add: map_concat comp_def)
    finally show ?thesis by simp
  qed
  from run_sample_indep [OF run, of f] obtain report2 st2 where
    "run (env\<lparr>sample_pixels := f\<rparr>) cfg fn new_pipeline = (Inr report2, st2)"
    "same_outputs st' st2" by blast
  then have indep: "\<exists>report2 st2. run (env\<lparr>sample_pixels := f\<rparr>) cfg fn new_pipeline = (Inr report2, st2)
          \<and> generated_assets st2 = generated_assets st' \<and> saved st2 = saved st'"
    by (auto simp: same_outputs_def)
  note pass = process_ratio_completes_iff [of env cfg brief p hero src prm r st]
  from cr once none keys sv files indep pass show ?thesis by (intro conjI)
qed

theorem compliance_once_per_product_never_blocks_witness:
  "\<not> isl (fst (run acme_env load_config ''brief.yaml'' new_pipeline))
   \<and> read_brief acme_env (path_div (campaign_path acme_env) ''brief.yaml'') = Inr acme_brief
   \<and> square_count (aspect_ratios load_config) = 1
   \<and> map ce_product_id (compliance_results (snd (run acme_env load_config ''brief.yaml'' new_pipeline)))
       = [''shampoo'', ''soap'']
   \<and> map (\<lambda>a. (product_id a, aspect_ratio a))
         (generated_assets (snd (run acme_env load_config ''brief.yaml'' new_pipeline)))
       = [(''shampoo'', ''square''), (''shampoo'', ''story''), (''shampoo'', ''landscape''),
          (''soap'', ''square''), (''soap'', ''story''), (''soap'', ''landscape'')]
   \<and> \<not> isl (fst (run acme_env no_square_config ''brief.yaml'' new_pipeline))
   \<and> ''square'' \<notin> set (map r_name (aspect_ratios no_square_config))
   \<and> compliance_results (snd (run acme_env no_square_config ''brief.yaml'' new_pipeline)) = []
   \<and> map (\<lambda>a. (product_id a, aspect_ratio a))
         (generated_assets (snd (run acme_env no_square_config ''brief.yaml'' new_pipeline)))
       = [(''shampoo'', ''story''), (''shampoo'', ''landscape''),
          (''soap'', ''story''), (''soap'', ''landscape'')]"
proof -
  have sq: "square_count (aspect_ratios load_config) = 1"
    by (simp add: square_count_def load_config_def)
  have nsq: "''square'' \<notin> set (map r_name (aspect_ratios no_square_config))"
    by (simp add: no_square_config_def load_config_def)
  have ps: "products acme_brief = [shampoo, soap]" by (simp add: acme_brief_def)
  have rs: "map r_name (aspect_ratios load_config) = [''square'', ''story'', ''landscape'']"
    "map r_name (aspect_ratios no_square_config) = [''story'', ''landscape'']"
    by (simp_all add: no_square_config_def load_config_def)
  have keys: "map (\<lambda>r. (i, r_name r)) rs = map (Pair i) (map r_name rs)"
    for i :: string and rs :: "AspectRatio list"
    by simp
  show ?thesis
    using compliance_once_per_product_never_blocks
            [OF acme_run acme_read, where f = "\<lambda>img. Inl (Exception ''unreadable'')"]
          compliance_once_per_product_never_blocks
            [OF no_square_run acme_read, where f = "\<lambda>img. Inl (Exception ''unreadable'')"]
          acme_completes no_square_completes acme_read sq nsq
    by (simp add: ps rs keys shampoo_def soap_def del: map_map)
qed

text \<open>
  C8. \<open>moderate_campaign_message\<close> raises if and only if \<open>strict\<close> is true and some
  prohibited term, lower-cased, is a substring of the lower-cased message (the AI check
  never flags). The error lists the offending terms, in the order of the term list. With
  \<open>strict\<close> false it returns whether the message is safe and never raises. The
  orchestrator calls it with \<open>strict\<close> false: once the brief is read and valid, the run is
  the rest of the pipeline, whatever the message.
\<close>

theorem moderate_campaign_message_strict_only:
  "((\<exists>e. moderate_campaign_message terms msg strict = Inl e)
      \<longleftrightarrow> strict \<and> (\<exists>t \<in> set terms. sublist (lower t) (lower msg)))
   \<and> (strict \<and> (\<exists>t \<in> set terms. sublist (lower t) (lower msg)) \<longrightarrow>
        moderate_campaign_message terms msg strict =
          Inl (ValueError (''Campaign message failed moderation:'' @ [CHR 0x0A]
                 @ ''  - Prohibited terms found: ''
                 @ join '', '' (filter (\<lambda>t. sublist (lower t) (lower msg)) terms)
                 @ [CHR 0x0A])))
   \<and> moderate_campaign_message terms msg False
        = Inr (\<not> (\<exists>t \<in> set terms. sublist (lower t) (lower msg)))
   \<and> (read_brief env (path_div (campaign_path env) brief_filename) = Inr brief0
        \<and> fst (validate_brief brief0)
        \<longrightarrow> run env cfg brief_filename st = run_from_localization env cfg brief0 st)"
  by (auto simp: moderate_campaign_message_def moderate_text_def is_safe_def
      check_prohibited_terms_def ai_moderation_check_def moderation_error_msg_def
      run_def filter_empty_conv Let_def)

theorem moderate_campaign_message_strict_only_witness:
  "''guaranteed'' \<in> set load_default_terms
   \<and> sublist (lower ''guaranteed'') (lower ''Guaranteed shine'')
   \<and> moderate_campaign_message load_default_terms ''Guaranteed shine'' True
       = Inl (ValueError (''Campaign message failed moderation:'' @ [CHR 0x0A]
                @ ''  - Prohibited terms found: guaranteed'' @ [CHR 0x0A]))
   \<and> moderate_campaign_message load_default_terms ''Guaranteed shine'' False = Inr False
   \<and> read_brief acme_env (path_div (campaign_path acme_env) ''brief.yaml'') = Inr acme_brief
   \<and> fst (validate_brief acme_brief)
   \<and> campaign_message acme_brief = ''Guaranteed shine''
   \<and> run acme_env load_config ''brief.yaml'' new_pipeline
       = run_from_localization acme_env load_config acme_brief new_pipeline
   \<and> \<not> isl (fst (run acme_env load_config ''brief.yaml'' new_pipeline))"
proof -
  have hit: "\<exists>t \<in> set load_default_terms. sublist (lower t) (lower ''Guaranteed shine'')"
    by code_simp
  have off: "filter (\<lambda>t. sublist (lower t) (lower ''Guaranteed shine'')) load_default_terms
              = [''guaranteed'']"
    by code_simp
  have mem: "''guaranteed'' \<in> set load_default_terms"
    and sub: "sublist (lower ''guaranteed'') (lower ''Guaranteed shine'')"
    by code_simp+
  have valid: "fst (validate_brief acme_brief)" by code_simp
  have msg: "campaign_message acme_brief = ''Guaranteed shine''" by (simp add: acme_brief_def)
  show ?thesis
    using moderate_campaign_message_strict_only [of load_default_terms "''Guaranteed shine''" True acme_env "''brief.yaml''"
                 acme_brief load_config new_pipeline]
          moderate_campaign_message_strict_only [of load_default_terms "''Guaranteed shine''" False acme_env "''brief.yaml''"
                 acme_brief load_config new_pipeline]
          hit off valid msg acme_read acme_completes mem sub
    by simp
qed

text \<open>
  C10. In a completed run of a fresh pipeline the asset records are the products' blocks
  in brief order: each product contributes one record per configured ratio, all with one
  source and one prompt, which is either \<open>existing\<close> with no prompt or \<open>generated\<close> with the
  prompt built for that product. So every record's source is \<open>generated\<close> or \<open>existing\<close>,
  and the statistics satisfy assets_generated + assets_reused = total_assets. When product
  ids are distinct, records with the same product id have the same source and prompt.
  The report lists the products in brief order; a product's \<open>source\<close> and \<open>prompt_used\<close>
  are those of the first asset record with its id, and \<open>unknown\<close> and no prompt only when
  there is no such record, which cannot happen when at least one ratio is configured.
  With distinct ids and at least one ratio, the reported source and prompt are the
  product's own.
\<close>

theorem assets_uniform_per_product:
  assumes run: "run env cfg fn new_pipeline = (Inr report, st')"
      and rb: "read_brief env (path_div (campaign_path env) fn) = Inr brief0"
  shows "(\<exists>sps. list_all2 (source_ok brief0) (products brief0) sps
            \<and> generated_assets st'
                = concat (map2 (product_block (campaign_path env) (aspect_ratios cfg))
                            (products brief0) sps)
            \<and> (distinct (map p_id (products brief0)) \<and> aspect_ratios cfg \<noteq> [] \<longrightarrow>
                 map (\<lambda>pr. (pr_source pr, pr_prompt_used pr)) (report_products report) = sps))
    \<and> (distinct (map p_id (products brief0)) \<longrightarrow>
         (\<forall>a \<in> set (generated_assets st'). \<forall>b \<in> set (generated_assets st').
            product_id a = product_id b \<longrightarrow> source a = source b \<and> prompt_used a = prompt_used b))
    \<and> (\<forall>a \<in> set (generated_assets st'). source a = ''generated'' \<or> source a = ''existing'')
    \<and> report_products report = map (product_report st') (products brief0)
    \<and> (\<forall>p \<in> set (products brief0).
          pr_source (product_report st' p)
            = (case find (\<lambda>a. product_id a = p_id p) (generated_assets st') of
                 None \<Rightarrow> ''unknown'' | Some a \<Rightarrow> source a)
          \<and> pr_prompt_used (product_report st' p)
            = (case find (\<lambda>a. product_id a = p_id p) (generated_assets st') of
                 None \<Rightarrow> None | Some a \<Rightarrow> prompt_used a)
          \<and> (aspect_ratios cfg \<noteq> [] \<longrightarrow>
               find (\<lambda>a. product_id a = p_id p) (generated_assets st') \<noteq> None))
    \<and> assets_generated (statistics report) + assets_reused (statistics report)
         = total_assets (statistics report)"
  (is "?A \<and> ?B \<and> ?C \<and> ?D \<and> ?E \<and> ?F")
proof -
  note d = run_done [OF run rb]
  let ?root = "campaign_path env" and ?rs = "aspect_ratios cfg" and ?ps = "products brief0"
  from process_products_done [OF d(2)] obtain sps where
    sps: "list_all2 (source_ok brief0) ?ps sps" and
    as: "generated_assets st' = concat (map2 (product_block ?root ?rs) ?ps sps)"
    by (auto simp: new_pipeline_fields source_ok_localize)
  have len: "length ?ps = length sps" using sps by (rule list_all2_lengthD)
  have rp: ?D using d(3) by (simp add: generate_report_def localize_keeps)
  have rep: "distinct (map p_id ?ps) \<and> ?rs \<noteq> [] \<longrightarrow>
                 map (\<lambda>pr. (pr_source pr, pr_prompt_used pr)) (report_products report) = sps"
  proof
    assume h: "distinct (map p_id ?ps) \<and> ?rs \<noteq> []"
    have "map (\<lambda>p. (pr_source (product_report st' p), pr_prompt_used (product_report st' p))) ?ps = sps"
      using reported_sources [OF len, of ?rs "[]" st' ?root] h as by simp
    then show "map (\<lambda>pr. (pr_source pr, pr_prompt_used pr)) (report_products report) = sps"
      using rp by (simp add: comp_def)
  qed
  have a: ?A using sps as rep by blast
  have origin: "\<exists>p sp. (p, sp) \<in> set (zip ?ps sps) \<and> x \<in> set (product_block ?root ?rs p sp)"
    if "x \<in> set (generated_assets st')" for x
    using that in_blocks [OF len, of x ?root ?rs] as by simp
  have b: ?B
  proof (intro impI ballI)
    fix x y
    assume dist: "distinct (map p_id ?ps)"
      and x: "x \<in> set (generated_assets st')" and y: "y \<in> set (generated_assets st')"
      and same: "product_id x = product_id y"
    from origin [OF x] obtain p sp where
      p: "(p, sp) \<in> set (zip ?ps sps)" "x \<in> set (product_block ?root ?rs p sp)" by blast
    from origin [OF y] obtain q sq where
      q: "(q, sq) \<in> set (zip ?ps sps)" "y \<in> set (product_block ?root ?rs q sq)" by blast
    have "p_id p = p_id q" using same block_fields [OF p(2)] block_fields [OF q(2)] by simp
    then have "sp = sq" using zip_functional [OF len dist p(1) q(1)] by simp
    then show "source x = source y \<and> prompt_used x = prompt_used y"
      using block_fields [OF p(2)] block_fields [OF q(2)] by simp
  qed
  have c: ?C
  proof
    fix x assume x: "x \<in> set (generated_assets st')"
    from origin [OF x] obtain p sp where
      p: "(p, sp) \<in> set (zip ?ps sps)" "x \<in> set (product_block ?root ?rs p sp)" by blast
    have "source_ok brief0 p sp" using sps p(1) by (auto simp: list_all2_iff)
    then show "source x = ''generated'' \<or> source x = ''existing''"
      using block_fields [OF p(2)] by (auto simp: source_ok_def)
  qed
  have e: ?E
  proof
    fix p assume p: "p \<in> set ?ps"
    have ne: "find (\<lambda>a. product_id a = p_id p) (generated_assets st') \<noteq> None" if rs: "?rs \<noteq> []"
    proof -
      from p len obtain sp where sp: "(p, sp) \<in> set (zip ?ps sps)"
        by (metis in_set_impl_in_set_zip1)
      obtain r where "r \<in> set ?rs" using rs by (cases ?rs) auto
      then have "asset_record p r (output_file ?root (p_id p) (r_name r)) (fst sp) (snd sp)
                   \<in> set (product_block ?root ?rs p sp)"
        by (simp add: product_block_def)
      from in_blocksI [OF sp this]
      have "asset_record p r (output_file ?root (p_id p) (r_name r)) (fst sp) (snd sp)
              \<in> set (generated_assets st')"
        using as by simp
      moreover have "product_id (asset_record p r (output_file ?root (p_id p) (r_name r))
                        (fst sp) (snd sp)) = p_id p"
        by (simp add: asset_record_def)
      ultimately have "\<exists>a. a \<in> set (generated_assets st') \<and> product_id a = p_id p"
        by blast
      then show ?thesis by (auto simp: find_None_iff)
    qed
    show "pr_source (product_report st' p)
            = (case find (\<lambda>a. product_id a = p_id p) (generated_assets st') of
                 None \<Rightarrow> ''unknown'' | Some a \<Rightarrow> source a)
          \<and> pr_prompt_used (product_report st' p)
            = (case find (\<lambda>a. product_id a = p_id p) (generated_assets st') of
                 None \<Rightarrow> None | Some a \<Rightarrow> prompt_used a)
          \<and> (aspect_ratios cfg \<noteq> [] \<longrightarrow>
               find (\<lambda>a. product_id a = p_id p) (generated_assets st') \<noteq> None)"
      using ne by (simp add: product_report_first)
  qed
  have f: ?F
  proof -
    have "\<forall>a \<in> set (generated_assets st'). (source a = ''generated'') \<noteq> (source a = ''existing'')"
      using c by auto
    from xor_filter_length [OF this] show ?thesis
      using d(3) by (simp add: generate_report_def)
  qed
  from a b c rp e f show ?thesis by (intro conjI)
qed

theorem assets_uniform_per_product_witness:
  "\<not> isl (fst (run acme_env load_config ''brief.yaml'' new_pipeline))
   \<and> read_brief acme_env (path_div (campaign_path acme_env) ''brief.yaml'') = Inr acme_brief
   \<and> distinct (map p_id (products acme_brief))
   \<and> aspect_ratios load_config \<noteq> []
   \<and> shampoo \<in> set (products acme_brief)
   \<and> find (\<lambda>a. product_id a = p_id shampoo)
        (generated_assets (snd (run acme_env load_config ''brief.yaml'' new_pipeline))) \<noteq> None
   \<and> assets_generated (statistics (projr (fst (run acme_env load_config ''brief.yaml'' new_pipeline))))
      + assets_reused (statistics (projr (fst (run acme_env load_config ''brief.yaml'' new_pipeline))))
      = total_assets (statistics (projr (fst (run acme_env load_config ''brief.yaml'' new_pipeline))))
   \<and> report_products (projr (fst (run acme_env load_config ''brief.yaml'' new_pipeline)))
      = map (product_report (snd (run acme_env load_config ''brief.yaml'' new_pipeline)))
          (products acme_brief)"
proof -
  have dist: "distinct (map p_id (products acme_brief))"
    by (simp add: acme_brief_def shampoo_def soap_def)
  have ne: "aspect_ratios load_config \<noteq> []" by (simp add: load_config_def)
  have mem: "shampoo \<in> set (products acme_brief)" by (simp add: acme_brief_def)
  from assets_uniform_per_product [OF acme_run acme_read] dist ne mem
  show ?thesis using acme_completes acme_read by blast
qed

end
